theory Spec2Isabelle
  imports Main "HOL-Library.Word" "HOL-Library.AList"
begin

section \<open>The swap coordinator of dcrdex (package swap): data model\<close>

text \<open>
  The development follows the Go source of the server-side Swapper. Go maps that the code
  only looks up are partial functions; maps that the code ranges over are association
  lists (the list order stands for the iteration order Go picks, so a statement about
  every list is a statement about every iteration order). Calls to the external
  collaborators (AuthManager, Storage, coin lockers, the unbook hook) are recorded in a
  trace of events; what the clock, the decoder, the AuthManager and the Storage answer is
  a parameter of the function that asks, and the methods of an asset's backend are fields
  of the asset. Locks are not modelled: every function runs to its end alone.
\<close>

subsection \<open>Identifiers, amounts and time\<close>

type_synonym bytes = "8 word list"

text \<open>account.AccountID, order.OrderID and order.MatchID are byte arrays.\<close>

type_synonym AccountID = bytes
type_synonym OrderID = bytes
type_synonym MatchID = bytes

type_synonym uint32 = "32 word"
type_synonym uint64 = "64 word"

text \<open>
  A time.Time is an instant, counted here in nanoseconds since Go's zero time
  (January 1, year 1, 00:00 UTC). A time.Duration is an int64 count of nanoseconds.
\<close>

type_synonym Time = int
type_synonym Duration = int

definition maxDuration :: Duration where
  "maxDuration = 2 ^ 63 - 1"

definition minDuration :: Duration where
  "minDuration = - (2 ^ 63)"

definition IsZero :: "Time \<Rightarrow> bool" where
  "IsZero t = (t = 0)"

text \<open>t.Add(d).\<close>

definition Add :: "Time \<Rightarrow> Duration \<Rightarrow> Time" where
  "Add t d = t + d"

text \<open>
  t.Sub(u): the difference as a Duration; a difference that does not fit an int64 is
  replaced by the largest or the smallest Duration.
\<close>

definition Sub :: "Time \<Rightarrow> Time \<Rightarrow> Duration" where
  "Sub t u =
     (let d = t - u
      in if maxDuration < d then maxDuration
         else if d < minDuration then minDuration
         else d)"

text \<open>t.After(u) and t.Before(u).\<close>

definition After :: "Time \<Rightarrow> Time \<Rightarrow> bool" where
  "After t u = (u < t)"

definition Before :: "Time \<Rightarrow> Time \<Rightarrow> bool" where
  "Before t u = (t < u)"

subsection \<open>Orders\<close>

datatype OrderType = LimitOrderType | MarketOrderType | CancelOrderType

text \<open>
  What the Swapper reads of an order.Order: its ID, its User, its dynamic type, the market
  (Base, Quote), and of its Trade the side, the swap address; Rate is the rate of a limit
  order.
\<close>

record Order =
  oID :: OrderID
  oUser :: AccountID
  oType :: OrderType
  BaseAsset :: uint32
  QuoteAsset :: uint32
  Sell :: bool
  oRate :: uint64
  SwapAddress :: string

subsection \<open>The order swap tracker\<close>

text \<open>SwapCount is a Go int (64 bits on the server's targets): increments and decrements wrap.\<close>

record orderSwapStat =
  SwapCount :: "64 word"
  OffBook :: bool
  HasFailed :: bool

type_synonym orderSwapTracker = "OrderID \<Rightarrow> orderSwapStat option"

definition newOrderSwapTracker :: orderSwapTracker where
  "newOrderSwapTracker = Map.empty"

text \<open>
  decrementActiveSwapCount: the returned pair is the boolean the Go method returns and the
  orderMatches map it leaves behind.
\<close>

definition decrementActiveSwapCount ::
  "Order \<Rightarrow> bool \<Rightarrow> orderSwapTracker \<Rightarrow> bool \<times> orderSwapTracker" where
  "decrementActiveSwapCount ord failed om =
     (let oid = oID ord
      in case om oid of
           None \<Rightarrow> (True, om)
         | Some stat0 \<Rightarrow>
             (let stat1 = stat0\<lparr>HasFailed := HasFailed stat0 \<or> failed\<rparr>;
                  stat = stat1\<lparr>SwapCount := SwapCount stat1 - 1\<rparr>
              in if SwapCount stat \<noteq> 0 then (False, om(oid \<mapsto> stat))
                 else (OffBook stat \<and> \<not> HasFailed stat,
                       if \<not> HasFailed stat \<or> OffBook stat then om(oid := None)
                       else om(oid \<mapsto> stat))))"

definition swapSuccess :: "Order \<Rightarrow> orderSwapTracker \<Rightarrow> bool \<times> orderSwapTracker" where
  "swapSuccess ord om = decrementActiveSwapCount ord False om"

definition swapFailure :: "Order \<Rightarrow> orderSwapTracker \<Rightarrow> orderSwapTracker" where
  "swapFailure ord om = snd (decrementActiveSwapCount ord True om)"

definition incActiveSwapCount :: "Order \<Rightarrow> bool \<Rightarrow> orderSwapTracker \<Rightarrow> orderSwapTracker" where
  "incActiveSwapCount ord offBook om =
     (let oid = oID ord
      in case om oid of
           None \<Rightarrow> om(oid \<mapsto> \<lparr>SwapCount = 1, OffBook = offBook, HasFailed = False\<rparr>)
         | Some stat \<Rightarrow> om(oid \<mapsto> stat\<lparr>SwapCount := SwapCount stat + 1, OffBook := offBook\<rparr>))"

definition canceled :: "Order \<Rightarrow> orderSwapTracker \<Rightarrow> orderSwapTracker" where
  "canceled ord om =
     (let oid = oID ord
      in case om oid of
           None \<Rightarrow> om
         | Some stat \<Rightarrow> om(oid \<mapsto> stat\<lparr>OffBook := True, HasFailed := True\<rparr>))"

text \<open>
  Sequences of tracker operations, to state properties over histories. \<open>trueDecs\<close> counts
  the decrementActiveSwapCount calls for one order that return true; \<open>trackedTrueDecs\<close>
  counts those among them made while the order has an entry; \<open>creations\<close> counts the
  incActiveSwapCount calls that create the order's entry.
\<close>

datatype trackerOp = IncActive Order bool | DecActive Order bool | Canceled Order

fun applyOp :: "trackerOp \<Rightarrow> orderSwapTracker \<Rightarrow> orderSwapTracker" where
  "applyOp (IncActive ord offBook) om = incActiveSwapCount ord offBook om"
| "applyOp (DecActive ord failed) om = snd (decrementActiveSwapCount ord failed om)"
| "applyOp (Canceled ord) om = canceled ord om"

fun runOps :: "trackerOp list \<Rightarrow> orderSwapTracker \<Rightarrow> orderSwapTracker" where
  "runOps [] om = om"
| "runOps (op # ops) om = runOps ops (applyOp op om)"

fun returnsTrue :: "OrderID \<Rightarrow> trackerOp \<Rightarrow> orderSwapTracker \<Rightarrow> bool" where
  "returnsTrue oid (DecActive ord failed) om =
     (oID ord = oid \<and> fst (decrementActiveSwapCount ord failed om))"
| "returnsTrue oid _ om = False"

fun createsEntry :: "OrderID \<Rightarrow> trackerOp \<Rightarrow> orderSwapTracker \<Rightarrow> bool" where
  "createsEntry oid (IncActive ord offBook) om = (oID ord = oid \<and> om oid = None)"
| "createsEntry oid _ om = False"

fun trueDecs :: "OrderID \<Rightarrow> trackerOp list \<Rightarrow> orderSwapTracker \<Rightarrow> nat" where
  "trueDecs oid [] om = 0"
| "trueDecs oid (op # ops) om =
     (if returnsTrue oid op om then 1 else 0) + trueDecs oid ops (applyOp op om)"

fun trackedTrueDecs :: "OrderID \<Rightarrow> trackerOp list \<Rightarrow> orderSwapTracker \<Rightarrow> nat" where
  "trackedTrueDecs oid [] om = 0"
| "trackedTrueDecs oid (op # ops) om =
     (if returnsTrue oid op om \<and> om oid \<noteq> None then 1 else 0)
       + trackedTrueDecs oid ops (applyOp op om)"

fun creations :: "OrderID \<Rightarrow> trackerOp list \<Rightarrow> orderSwapTracker \<Rightarrow> nat" where
  "creations oid [] om = 0"
| "creations oid (op # ops) om =
     (if createsEntry oid op om then 1 else 0) + creations oid ops (applyOp op om)"

text \<open>A concrete limit order used in the examples below.\<close>

definition exOrder :: "bytes \<Rightarrow> bytes \<Rightarrow> bool \<Rightarrow> Order" where
  "exOrder oid usr sell =
     \<lparr>oID = oid, oUser = usr, oType = LimitOrderType, BaseAsset = 42, QuoteAsset = 0,
      Sell = sell, oRate = 150000, SwapAddress = ''addr''\<rparr>"

subsection \<open>Matches\<close>

datatype MatchStatus = NewlyMatched | MakerSwapCast | TakerSwapCast | MakerRedeemed | MatchComplete

datatype NoActionStep = NoSwapAsMaker | NoSwapAsTaker | NoRedeemAsMaker | NoRedeemAsTaker

text \<open>An asset.Contract as a backend returns it, and the coin ID of an asset.Coin.\<close>

record Contract =
  cID :: bytes
  cFeeRate :: uint64
  cSwapAddress :: string
  cValue :: uint64
  cLockTime :: Time
  cRedeemScript :: bytes

type_synonym Coin = bytes

text \<open>swapStatus; a nil swap or redemption is \<open>None\<close>.\<close>

record swapStatus =
  swapAsset :: uint32
  redeemAsset :: uint32
  swapTime :: Time
  swap :: "Contract option"
  swapConfirmed :: Time
  redeemTime :: Time
  redemption :: "Coin option"

definition swapConfTime :: "swapStatus \<Rightarrow> Time" where
  "swapConfTime ss = swapConfirmed ss"

definition redeemSeenTime :: "swapStatus \<Rightarrow> Time" where
  "redeemSeenTime ss = redeemTime ss"

text \<open>
  order.Match with the fields that the Swapper reads (\<open>EpochEnd\<close> is Epoch.End(),
  \<open>mID\<close> is ID()), and matchTracker, which embeds it. The acknowledgement signatures
  (Match.Sigs) are only logged by the functions modelled here and are left out.
\<close>

record Match =
  mID :: MatchID
  Maker :: Order
  Taker :: Order
  Quantity :: uint64
  Rate :: uint64
  Status :: MatchStatus
  EpochEnd :: Time
  FeeRateBase :: uint64
  FeeRateQuote :: uint64

record matchTracker = Match +
  time :: Time
  matchTime :: Time
  makerStatus :: swapStatus
  takerStatus :: swapStatus

subsection \<open>Assets and their backends\<close>

datatype backendError = CoinNotFoundError | OtherBackendError

text \<open>
  LockableAsset: the asset's parameters and the methods of its asset.Backend that the
  Swapper calls. \<open>ValidateCoinID\<close> returns the coin's string form or fails (\<open>None\<close>);
  \<open>ValidateContract\<close> is true when the script is accepted.
\<close>

record LockableAsset =
  Symbol :: string
  MaxFeeRate :: uint64
  SwapConf :: uint32
  ValidateCoinID :: "bytes \<Rightarrow> string option"
  ValidateContract :: "bytes \<Rightarrow> bool"
  ContractOf :: "bytes \<Rightarrow> bytes \<Rightarrow> backendError + Contract"
  RedemptionOf :: "bytes \<Rightarrow> bytes \<Rightarrow> backendError + Coin"
  ValidateSecret :: "bytes \<Rightarrow> bytes \<Rightarrow> bool"

subsection \<open>Messages\<close>

datatype errCode =
    RPCParseError | SignatureError | RPCUnknownMatch | SettlementSequenceError
  | ContractError | RedemptionError | TransactionUndiscovered | UnknownMarketError
  | TryAgainLaterError

datatype msgError = MsgError errCode string

record Message =
  msgID :: uint64
  Route :: string
  Payload :: bytes

text \<open>msgjson.Init and msgjson.Redeem (the signature is checked by the AuthManager).\<close>

record Init =
  iOrderID :: bytes
  iMatchID :: bytes
  iCoinID :: bytes
  iContract :: bytes

record Redeem =
  rOrderID :: bytes
  rMatchID :: bytes
  rCoinID :: bytes
  rSecret :: bytes

definition InitRoute :: string where "InitRoute = ''init''"
definition RedeemRoute :: string where "RedeemRoute = ''redeem''"
definition MatchIDSize :: nat where "MatchIDSize = 32"

record handlerArgs =
  haUser :: AccountID
  haMsg :: Message

type_synonym waiterKey = "uint64 \<times> AccountID"

subsection \<open>Calls to the external collaborators\<close>

text \<open>
  One constructor per call the modelled functions make on the AuthManager, the Storage,
  a coin locker or the unbook hook, with the arguments of the call. Times given to the
  storage are Unix milliseconds.
\<close>

datatype event =
    SetMatchInactive MatchID
  | UnbookHook OrderID
  | RecordCompletedOrder AccountID OrderID Time
  | SetOrderCompleteTime OrderID int
  | Inaction AccountID NoActionStep MatchID uint64 Time OrderID
  | SwapSuccess AccountID MatchID uint64 Time
  | UnlockOrderCoins uint32 OrderID
  | RevokeMatchNtfn AccountID OrderID MatchID
  | RespondError uint64 AccountID errCode string
  | RespondSuccess uint64 AccountID MatchID
  | SaveContract bool MatchID bytes bytes int
  | SaveRedeem bool MatchID bytes "bytes option" int
  | AuditRequest AccountID OrderID MatchID int bytes bytes Duration
  | RedemptionRequest AccountID OrderID MatchID int bytes bytes Duration
  | RouteRegistered string
  | GetStateHash
  | LatestStateFile string
  | LoadStateFile string
  | FileHash string

subsection \<open>Steps and waiters\<close>

text \<open>
  stepActor and stepInformation. An actor's \<open>status\<close> pointer is one of the two
  swapStatus fields of the tracker: \<open>saStatusOfMaker\<close> says it is makerStatus. The
  \<open>match\<close> pointer is the tracker's address (\<open>siMatch\<close>); \<open>siAsset\<close> is the
  asset of the step and \<open>siStep\<close> the field \<open>step\<close>.
\<close>

record stepActor =
  saUser :: AccountID
  saSwapAsset :: uint32
  saIsMaker :: bool
  saOrder :: Order
  saStatusOfMaker :: bool

record stepInformation =
  siMatch :: nat
  actor :: stepActor
  counterParty :: stepActor
  siAsset :: LockableAsset
  isBaseAsset :: bool
  siStep :: MatchStatus
  nextStep :: MatchStatus
  checkVal :: uint64

text \<open>
  A wait.Waiter put on the latency queue: its Expiration and what its TryFunc and
  ExpireFunc closures captured.
\<close>

datatype waiterJob =
    InitJob Message Init stepInformation
  | RedeemJob Message Redeem stepInformation

record Waiter =
  Expiration :: Time
  wUser :: AccountID
  wJob :: waiterJob

datatype TryDirective = TryAgain | DontTryAgain

text \<open>
  A call that can panic either returns or panics; the state at that point is kept, since
  the calls already made on the collaborators stay made.
\<close>

datatype 'a exec = Returns 'a | Panics string

subsection \<open>The Swapper\<close>

text \<open>
  The matchTracker objects live in a store, \<open>trackers\<close>, by address; the registry
  \<open>matches\<close> and the per-user index \<open>userMatches\<close> hold addresses, as the Go maps
  hold pointers, so a tracker taken out of the registry is still there for whoever holds
  its address. \<open>nextAddr\<close> is the next unused address. \<open>book\<close> and \<open>trace\<close> are not
  fields of the Go struct: \<open>book\<close> is the order book behind the unbook hook and
  \<open>trace\<close> the calls made so far on the collaborators.
\<close>

record Swapper =
  dataDir :: string
  coins :: "(uint32 \<times> LockableAsset) list"
  trackers :: "nat \<Rightarrow> matchTracker"
  nextAddr :: nat
  matches :: "(MatchID \<times> nat) list"
  userMatches :: "AccountID \<Rightarrow> (MatchID \<times> nat) list option"
  orders :: orderSwapTracker
  bTimeout :: Duration
  lockTimeTaker :: Duration
  lockTimeMaker :: Duration
  latencyQ :: "Waiter list"
  stop :: bool
  liveWaiters :: "(waiterKey \<times> handlerArgs) list"
  book :: "OrderID list"
  trace :: "event list"

definition emit :: "event list \<Rightarrow> Swapper \<Rightarrow> Swapper" where
  "emit evs s = s\<lparr>trace := trace s @ evs\<rparr>"

text \<open>
  Modelled from the spec: the unbook hook is a callback of the DEX manager, not part of
  this package; it is "called with a limit order to be removed from the matching book;
  returns whether it was on-book".
\<close>

definition unbookHook :: "Order \<Rightarrow> Swapper \<Rightarrow> bool \<times> Swapper" where
  "unbookHook lo s =
     (oID lo \<in> set (book s),
      emit [UnbookHook (oID lo)] (s\<lparr>book := removeAll (oID lo) (book s)\<rparr>))"

subsection \<open>The match registry\<close>

text \<open>The body of the loop over maker and taker in addMatch and in deleteMatch.\<close>

definition addUserMatch ::
  "AccountID \<Rightarrow> MatchID \<Rightarrow> nat \<Rightarrow> (AccountID \<Rightarrow> (MatchID \<times> nat) list option)
     \<Rightarrow> (AccountID \<Rightarrow> (MatchID \<times> nat) list option)" where
  "addUserMatch usr mid p um =
     (case um usr of
        None \<Rightarrow> um(usr \<mapsto> [(mid, p)])
      | Some ms \<Rightarrow> um(usr \<mapsto> AList.update mid p ms))"

definition addMatch :: "nat \<Rightarrow> Swapper \<Rightarrow> Swapper" where
  "addMatch p s =
     (let mt = trackers s p; mid = mID mt;
          maker = oUser (Maker mt); taker = oUser (Taker mt);
          um1 = addUserMatch maker mid p (userMatches s);
          um2 = (if maker = taker then um1 else addUserMatch taker mid p um1)
      in s\<lparr>matches := AList.update mid p (matches s), userMatches := um2\<rparr>)"

definition deleteUserMatch ::
  "AccountID \<Rightarrow> MatchID \<Rightarrow> (AccountID \<Rightarrow> (MatchID \<times> nat) list option)
     \<Rightarrow> (AccountID \<Rightarrow> (MatchID \<times> nat) list option)" where
  "deleteUserMatch usr mid um =
     (case um usr of
        None \<Rightarrow> um
      | Some ms \<Rightarrow>
          (let ms' = AList.delete mid ms
           in if length ms' = 0 then um(usr := None) else um(usr \<mapsto> ms')))"

definition deleteMatch :: "nat \<Rightarrow> Swapper \<Rightarrow> Swapper" where
  "deleteMatch p s =
     (let mt = trackers s p; mid = mID mt;
          maker = oUser (Maker mt); taker = oUser (Taker mt);
          um1 = deleteUserMatch maker mid (userMatches s);
          um2 = (if maker = taker then um1 else deleteUserMatch taker mid um1)
      in s\<lparr>matches := AList.delete mid (matches s), userMatches := um2\<rparr>)"

subsection \<open>Coin locks and revocation\<close>

definition unlockOrderIDCoins :: "uint32 \<Rightarrow> OrderID \<Rightarrow> Swapper \<Rightarrow> unit exec \<times> Swapper" where
  "unlockOrderIDCoins a oid s =
     (case map_of (coins s) a of
        None \<Rightarrow> (Panics ''Unable to lock coins for asset'', s)
      | Some assetLock \<Rightarrow> (Returns (), emit [UnlockOrderCoins a oid] s))"

text \<open>ord.Trade() is nil for a cancel order, and reading its Sell field panics.\<close>

definition unlockOrderCoins :: "Order \<Rightarrow> Swapper \<Rightarrow> unit exec \<times> Swapper" where
  "unlockOrderCoins ord s =
     (if oType ord = CancelOrderType then (Panics ''nil pointer dereference'', s)
      else unlockOrderIDCoins (if Sell ord then BaseAsset ord else QuoteAsset ord) (oID ord) s)"

definition revoke :: "matchTracker \<Rightarrow> Swapper \<Rightarrow> unit exec \<times> Swapper" where
  "revoke m s =
     (case unlockOrderCoins (Taker m) s of
        (Panics e, s1) \<Rightarrow> (Panics e, s1)
      | (Returns u, s1) \<Rightarrow>
          (case unlockOrderCoins (Maker m) s1 of
             (Panics e, s2) \<Rightarrow> (Panics e, s2)
           | (Returns v, s2) \<Rightarrow>
               (Returns (),
                emit [RevokeMatchNtfn (oUser (Taker m)) (oID (Taker m)) (mID m),
                      RevokeMatchNtfn (oUser (Maker m)) (oID (Maker m)) (mID m)] s2)))"

definition UnixMilli :: "Time \<Rightarrow> int" where
  "UnixMilli t = (t - 62135596800 * 1000000000) div 1000000"

text \<open>
  The switch at the head of failMatch: the scoring label, the reference time and whether
  the maker is at fault; \<open>None\<close> is the default branch, which logs and returns.
\<close>

definition failMatchFault :: "matchTracker \<Rightarrow> (NoActionStep \<times> Time \<times> bool) option" where
  "failMatchFault m =
     (case Status m of
        NewlyMatched \<Rightarrow> Some (NoSwapAsMaker, EpochEnd m, True)
      | MakerSwapCast \<Rightarrow> Some (NoSwapAsTaker, swapTime (makerStatus m), False)
      | TakerSwapCast \<Rightarrow> Some (NoRedeemAsMaker, swapTime (takerStatus m), True)
      | MakerRedeemed \<Rightarrow> Some (NoRedeemAsTaker, redeemTime (makerStatus m), False)
      | MatchComplete \<Rightarrow> None)"

text \<open>
  failMatch. \<open>compTime\<close> is the time.Now() read when the other order completes. The
  maker of a match is a limit order by its Go type; the taker is one when its dynamic type
  says so.
\<close>

definition failMatch :: "Time \<Rightarrow> matchTracker \<Rightarrow> Swapper \<Rightarrow> unit exec \<times> Swapper" where
  "failMatch compTime m s =
     (case failMatchFault m of
        None \<Rightarrow> (Returns (), s)
      | Some (misstep, refTime, makerFault) \<Rightarrow>
          (let orderAtFault = (if makerFault then Maker m else Taker m);
               otherOrder = (if makerFault then Taker m else Maker m);
               s1 = emit [SetMatchInactive (mID m)] s;
               isLimit = (makerFault \<or> oType orderAtFault = LimitOrderType);
               s2 = (if isLimit
                     then (case unbookHook orderAtFault s1 of
                             (True, s') \<Rightarrow> s'\<lparr>orders := canceled orderAtFault (orders s')\<rparr>
                           | (False, s') \<Rightarrow> s')
                     else s1);
               s3 = s2\<lparr>orders := swapFailure orderAtFault (orders s2)\<rparr>;
               (done, om) = swapSuccess otherOrder (orders s3);
               s4 = s3\<lparr>orders := om\<rparr>;
               s5 = (if done
                     then emit [RecordCompletedOrder (oUser otherOrder) (oID otherOrder) compTime,
                                SetOrderCompleteTime (oID otherOrder) (UnixMilli compTime)] s4
                     else s4);
               s6 = emit [Inaction (oUser orderAtFault) misstep (mID m) (Quantity m) refTime
                            (oID orderAtFault)] s5
           in revoke m s6))"

subsection \<open>The inaction sweeps\<close>

text \<open>The closures tooOld of checkInactionEventBased and of checkInactionBlockBased.\<close>

definition tooOldEventBased :: "Duration \<Rightarrow> Time \<Rightarrow> Time \<Rightarrow> bool" where
  "tooOldEventBased bt now evt = (bt \<le> Sub now evt)"

definition tooOldBlockBased :: "Duration \<Rightarrow> Time \<Rightarrow> Time \<Rightarrow> bool" where
  "tooOldBlockBased bt now evt = (\<not> IsZero evt \<and> bt \<le> Sub now evt)"

text \<open>
  The switch of each checkMatch closure: does the sweep fail this match? The block-based
  one first skips a match that does not involve the asset.
\<close>

definition eventBasedFails :: "Duration \<Rightarrow> Time \<Rightarrow> matchTracker \<Rightarrow> bool" where
  "eventBasedFails bt now m =
     (case Status m of
        NewlyMatched \<Rightarrow> tooOldEventBased bt now (time m)
      | MakerRedeemed \<Rightarrow> tooOldEventBased bt now (redeemSeenTime (makerStatus m))
      | _ \<Rightarrow> False)"

definition blockBasedFails :: "Duration \<Rightarrow> Time \<Rightarrow> uint32 \<Rightarrow> matchTracker \<Rightarrow> bool" where
  "blockBasedFails bt now assetID m =
     (if swapAsset (makerStatus m) \<noteq> assetID \<and> swapAsset (takerStatus m) \<noteq> assetID then False
      else (case Status m of
              MakerSwapCast \<Rightarrow> tooOldBlockBased bt now (swapConfTime (makerStatus m))
            | TakerSwapCast \<Rightarrow> tooOldBlockBased bt now (swapConfTime (takerStatus m))
            | _ \<Rightarrow> False))"

text \<open>
  The loop over the registry, shared by the two sweeps: each match the check selects is
  failed and its address appended to the deletions; a panic ends the loop.
\<close>

fun checkMatches ::
  "(matchTracker \<Rightarrow> bool) \<Rightarrow> Time \<Rightarrow> (MatchID \<times> nat) list \<Rightarrow> nat list \<Rightarrow> Swapper
     \<Rightarrow> (nat list) exec \<times> Swapper" where
  "checkMatches fails compTime [] deletions s = (Returns deletions, s)"
| "checkMatches fails compTime ((mid, p) # rest) deletions s =
     (if fails (trackers s p)
      then (case failMatch compTime (trackers s p) s of
              (Panics e, s') \<Rightarrow> (Panics e, s')
            | (Returns u, s') \<Rightarrow> checkMatches fails compTime rest (deletions @ [p]) s')
      else checkMatches fails compTime rest deletions s)"

fun deleteMatches :: "nat list \<Rightarrow> Swapper \<Rightarrow> Swapper" where
  "deleteMatches [] s = s"
| "deleteMatches (p # ps) s = deleteMatches ps (deleteMatch p s)"

text \<open>
  checkInactionEventBased and checkInactionBlockBased. \<open>lastErr\<close> says whether
  storage.LastErr() returned an error, \<open>now\<close> is the time.Now() of the sweep.
\<close>

definition checkInactionEventBased ::
  "bool \<Rightarrow> Time \<Rightarrow> Time \<Rightarrow> Swapper \<Rightarrow> unit exec \<times> Swapper" where
  "checkInactionEventBased lastErr now compTime s =
     (if lastErr then (Returns (), s)
      else (case checkMatches (eventBasedFails (bTimeout s) now) compTime (matches s) [] s of
              (Panics e, s') \<Rightarrow> (Panics e, s')
            | (Returns deletions, s') \<Rightarrow> (Returns (), deleteMatches deletions s')))"

definition checkInactionBlockBased ::
  "bool \<Rightarrow> Time \<Rightarrow> Time \<Rightarrow> uint32 \<Rightarrow> Swapper \<Rightarrow> unit exec \<times> Swapper" where
  "checkInactionBlockBased lastErr now compTime assetID s =
     (if lastErr then (Returns (), s)
      else (case checkMatches (blockBasedFails (bTimeout s) now assetID) compTime (matches s) [] s of
              (Panics e, s') \<Rightarrow> (Panics e, s')
            | (Returns deletions, s') \<Rightarrow> (Returns (), deleteMatches deletions s')))"

subsection \<open>What the environment answers\<close>

datatype dbError = ErrGeneralFailure | ErrOther

text \<open>
  What json.Unmarshal does to the params pointer of a handler: it fails, or it leaves the
  pointer nil (the payload is the JSON value null), or it fills the params.
\<close>

datatype 'a decoded = DecodeError | DecodedNil | Decoded 'a

text \<open>
  The answers of the clock, of the JSON decoder, of the AuthManager and of the Storage
  during one call; \<open>BaseToQuote\<close> is matcher.BaseToQuote, which belongs to another
  package. \<open>saveContractErr\<close> says that SaveContractA/B returned an error,
  \<open>newRequestErr\<close> that msgjson.NewRequest did, \<open>setOrderCompleteTimeErr\<close> is the
  error of SetOrderCompleteTime, if any.
\<close>

record Env =
  Now :: Time
  BaseToQuote :: "uint64 \<Rightarrow> uint64 \<Rightarrow> uint64"
  unmarshalInit :: "bytes \<Rightarrow> Init decoded"
  unmarshalRedeem :: "bytes \<Rightarrow> Redeem decoded"
  AuthInit :: "AccountID \<Rightarrow> Init \<Rightarrow> bool"
  AuthRedeem :: "AccountID \<Rightarrow> Redeem \<Rightarrow> bool"
  saveContractErr :: bool
  newRequestErr :: bool
  setOrderCompleteTimeErr :: "dbError option"

text \<open>unixMsNow truncates the clock to milliseconds; encode.DropMilliseconds to seconds.\<close>

definition unixMsNow :: "Env \<Rightarrow> Time" where
  "unixMsNow env = Now env - Now env mod 1000000"

definition DropMilliseconds :: "Time \<Rightarrow> Time" where
  "DropMilliseconds t = t - t mod 1000000000"

definition respondError :: "uint64 \<Rightarrow> AccountID \<Rightarrow> errCode \<Rightarrow> string \<Rightarrow> Swapper \<Rightarrow> Swapper" where
  "respondError mid usr code errMsg s = emit [RespondError mid usr code errMsg] s"

definition respondSuccess :: "uint64 \<Rightarrow> AccountID \<Rightarrow> MatchID \<Rightarrow> Swapper \<Rightarrow> Swapper" where
  "respondSuccess mid usr matchID s = emit [RespondSuccess mid usr matchID] s"

definition setLiveWaiter :: "AccountID \<Rightarrow> Message \<Rightarrow> Swapper \<Rightarrow> Swapper" where
  "setLiveWaiter usr msg s =
     s\<lparr>liveWaiters :=
         AList.update (msgID msg, usr) \<lparr>haUser = usr, haMsg = msg\<rparr> (liveWaiters s)\<rparr>"

definition rmLiveWaiter :: "AccountID \<Rightarrow> uint64 \<Rightarrow> Swapper \<Rightarrow> Swapper" where
  "rmLiveWaiter usr mid s = s\<lparr>liveWaiters := AList.delete (mid, usr) (liveWaiters s)\<rparr>"

subsection \<open>The step resolver\<close>

text \<open>
  The switch of step on the match status: whether the maker is the actor, the next status,
  and whether the step is on the base asset; \<open>None\<close> is the default branch.
\<close>

definition stepSwitch :: "MatchStatus \<Rightarrow> bool \<Rightarrow> (bool \<times> MatchStatus \<times> bool) option" where
  "stepSwitch st makerSell =
     (case st of
        NewlyMatched \<Rightarrow> Some (True, MakerSwapCast, makerSell)
      | TakerSwapCast \<Rightarrow> Some (True, MakerRedeemed, \<not> makerSell)
      | MakerSwapCast \<Rightarrow> Some (False, TakerSwapCast, \<not> makerSell)
      | MakerRedeemed \<Rightarrow> Some (False, MatchComplete, makerSell)
      | MatchComplete \<Rightarrow> None)"

text \<open>
  step. Reading the BackedAsset of an asset that is not in the coins map dereferences a
  nil pointer.
\<close>

definition step ::
  "(uint64 \<Rightarrow> uint64 \<Rightarrow> uint64) \<Rightarrow> AccountID \<Rightarrow> MatchID \<Rightarrow> Swapper
     \<Rightarrow> (msgError + stepInformation) exec" where
  "step baseToQuote usr matchID s =
     (case map_of (matches s) matchID of
        None \<Rightarrow> Returns (Inl (MsgError RPCUnknownMatch ''unknown match ID''))
      | Some p \<Rightarrow>
          (let match = trackers s p; maker = Maker match; taker = Taker match
           in case stepSwitch (Status match) (Sell maker) of
                None \<Rightarrow>
                  Returns (Inl (MsgError SettlementSequenceError
                                  ''unknown settlement sequence identifier''))
              | Some (makerActs, next, isBase) \<Rightarrow>
                  (let actorOrder = (if makerActs then maker else taker);
                       cpOrder = (if makerActs then taker else maker)
                   in if oUser actorOrder \<noteq> usr
                      then Returns (Inl (MsgError SettlementSequenceError
                                           ''expected other party to act''))
                      else
                        (let actorAsset = (if isBase then BaseAsset maker else QuoteAsset maker);
                             cpAsset = (if isBase then QuoteAsset maker else BaseAsset maker);
                             val = (if isBase then Quantity match
                                    else baseToQuote (oRate maker) (Quantity match))
                         in case map_of (coins s) actorAsset of
                              None \<Rightarrow> Panics ''nil pointer dereference''
                            | Some a \<Rightarrow>
                                Returns (Inr
                                  \<lparr>siMatch = p,
                                   actor = \<lparr>saUser = oUser actorOrder, saSwapAsset = actorAsset,
                                            saIsMaker = makerActs, saOrder = actorOrder,
                                            saStatusOfMaker = makerActs\<rparr>,
                                   counterParty = \<lparr>saUser = oUser cpOrder, saSwapAsset = cpAsset,
                                            saIsMaker = \<not> makerActs, saOrder = cpOrder,
                                            saStatusOfMaker = \<not> makerActs\<rparr>,
                                   siAsset = a, isBaseAsset = isBase, siStep = Status match,
                                   nextStep = next, checkVal = val\<rparr>)))))"

text \<open>The swapStatus an actor's status pointer points to, and an update through it.\<close>

definition statusOf :: "stepActor \<Rightarrow> matchTracker \<Rightarrow> swapStatus" where
  "statusOf a m = (if saStatusOfMaker a then makerStatus m else takerStatus m)"

definition setStatusOf :: "stepActor \<Rightarrow> swapStatus \<Rightarrow> matchTracker \<Rightarrow> matchTracker" where
  "setStatusOf a ss m = (if saStatusOfMaker a then m\<lparr>makerStatus := ss\<rparr> else m\<lparr>takerStatus := ss\<rparr>)"

definition updTracker :: "nat \<Rightarrow> (matchTracker \<Rightarrow> matchTracker) \<Rightarrow> Swapper \<Rightarrow> Swapper" where
  "updTracker p f s = s\<lparr>trackers := (trackers s)(p := f (trackers s p))\<rparr>"

subsection \<open>processInit\<close>

text \<open>
  processInit, run by the coin waiter. The texts of the error responses are kept without
  their formatted arguments and quotation marks. counterParty.order.Trade() is nil for a cancel order.
\<close>

definition processInit ::
  "Env \<Rightarrow> Message \<Rightarrow> Init \<Rightarrow> stepInformation \<Rightarrow> Swapper \<Rightarrow> TryDirective exec \<times> Swapper" where
  "processInit env msg params stepInfo s =
     (let chain = siAsset stepInfo; act = actor stepInfo; cp = counterParty stepInfo;
          m = trackers s (siMatch stepInfo)
      in case ContractOf chain (iCoinID params) (iContract params) of
           Inl CoinNotFoundError \<Rightarrow> (Returns TryAgain, s)
         | Inl OtherBackendError \<Rightarrow>
             (Returns DontTryAgain,
              respondError (msgID msg) (saUser act) ContractError ''redemption error'' s)
         | Inr contract \<Rightarrow>
             (let reqFeeRate = (if isBaseAsset stepInfo then FeeRateBase m else FeeRateQuote m)
              in if cFeeRate contract < reqFeeRate
                 then (Returns DontTryAgain,
                       respondError (msgID msg) (saUser act) ContractError ''low tx fee'' s)
                 else if oType (saOrder cp) = CancelOrderType
                 then (Panics ''nil pointer dereference'', s)
                 else if cSwapAddress contract \<noteq> SwapAddress (saOrder cp)
                 then (Returns DontTryAgain,
                       respondError (msgID msg) (saUser act) ContractError
                         ''incorrect recipient'' s)
                 else if cValue contract \<noteq> checkVal stepInfo
                 then (Returns DontTryAgain,
                       respondError (msgID msg) (saUser act) ContractError
                         ''contract error. expected contract value'' s)
                 else
                   (let reqLockTime =
                          (if saIsMaker act
                           then DropMilliseconds (Add (matchTime m) (lockTimeMaker s))
                           else DropMilliseconds (Add (matchTime m) (lockTimeTaker s)))
                    in if Before (cLockTime contract) reqLockTime
                       then (Returns DontTryAgain,
                             respondError (msgID msg) (saUser act) ContractError
                               ''contract error. expected lock time'' s)
                       else
                         (let swapT = unixMsNow env; matchID = mID m;
                              swapTimeMs = UnixMilli swapT;
                              s1 = emit [SaveContract (saIsMaker act) matchID
                                           (iContract params) (iCoinID params) swapTimeMs] s
                          in if saveContractErr env
                             then (Returns TryAgain,
                                   respondError (msgID msg) (saUser act) UnknownMarketError
                                     ''internal server error'' s1)
                             else
                               (case map_of (matches s1) matchID of
                                  None \<Rightarrow>
                                    (Returns DontTryAgain,
                                     respondError (msgID msg) (saUser act) ContractError
                                       ''match already revoked due to inaction'' s1)
                                | Some q \<Rightarrow>
                                    (let s2 = updTracker (siMatch stepInfo)
                                                (\<lambda>t. setStatusOf act
                                                       ((statusOf act t)\<lparr>swap := Some contract,
                                                                         swapTime := swapT\<rparr>) t) s1;
                                         s3 = updTracker (siMatch stepInfo)
                                                (\<lambda>t. t\<lparr>Status := nextStep stepInfo\<rparr>) s2;
                                         s4 = respondSuccess (msgID msg) (saUser act) matchID s3
                                     in if newRequestErr env then (Returns DontTryAgain, s4)
                                        else (Returns DontTryAgain,
                                              emit [AuditRequest (saUser cp) (oID (saOrder cp))
                                                      matchID swapTimeMs (iCoinID params)
                                                      (iContract params) (bTimeout s4)] s4)))))))"

subsection \<open>processRedeem\<close>

text \<open>
  processRedeem, run by the coin waiter. The counterparty's swap is read through the
  status pointer, and calling a method of a nil contract panics. A failure to store the
  redemption is only logged. The timeout of the redemption request is
  time.Until(redeemTime.Add(bTimeout)).
\<close>

definition processRedeem ::
  "Env \<Rightarrow> Message \<Rightarrow> Redeem \<Rightarrow> stepInformation \<Rightarrow> Swapper \<Rightarrow> TryDirective exec \<times> Swapper" where
  "processRedeem env msg params stepInfo s =
     (let chain = siAsset stepInfo; act = actor stepInfo; cp = counterParty stepInfo;
          p = siMatch stepInfo; match = trackers s p; matchID = mID match
      in case swap (statusOf cp match) of
           None \<Rightarrow> (Panics ''nil pointer dereference'', s)
         | Some cpSwap \<Rightarrow>
             if \<not> ValidateSecret chain (rSecret params) (cRedeemScript cpSwap)
             then (Returns DontTryAgain,
                   respondError (msgID msg) (saUser act) UnknownMarketError
                     ''secret validation failed'' s)
             else
               (case RedemptionOf chain (rCoinID params) (cID cpSwap) of
                  Inl CoinNotFoundError \<Rightarrow> (Returns TryAgain, s)
                | Inl OtherBackendError \<Rightarrow>
                    (Returns DontTryAgain,
                     respondError (msgID msg) (saUser act) RedemptionError ''redemption error'' s)
                | Inr redemp \<Rightarrow>
                    (let newStatus = nextStep stepInfo
                     in case map_of (matches s) matchID of
                          None \<Rightarrow>
                            (Returns DontTryAgain,
                             respondError (msgID msg) (saUser act) RedemptionError
                               ''match already revoked due to inaction'' s)
                        | Some q \<Rightarrow>
                            (let redeemT = unixMsNow env;
                                 s1 = updTracker p
                                        (\<lambda>t. setStatusOf act
                                               ((statusOf act t)\<lparr>redemption := Some redemp,
                                                                 redeemTime := redeemT\<rparr>) t) s;
                                 s2 = updTracker p (\<lambda>t. t\<lparr>Status := newStatus\<rparr>) s1;
                                 s3 = (if newStatus = MatchComplete then deleteMatch p s2 else s2);
                                 s4 = (if saUser act \<noteq> saUser cp \<or> newStatus = MatchComplete
                                       then emit [SwapSuccess (saUser act) matchID
                                                    (Quantity match) redeemT] s3
                                       else s3);
                                 redeemTimeMs = UnixMilli redeemT;
                                 s5 = emit [SaveRedeem (saIsMaker act) matchID (rCoinID params)
                                              (if saIsMaker act then Some (rSecret params) else None)
                                              redeemTimeMs] s4;
                                 s6 = respondSuccess (msgID msg) (saUser act) matchID s5;
                                 ord = (if saIsMaker act then Maker match else Taker match);
                                 (done, om) = swapSuccess ord (orders s6);
                                 s7 = s6\<lparr>orders := om\<rparr>;
                                 s8 = (if done
                                       then emit [RecordCompletedOrder (saUser act) (oID ord) redeemT,
                                                  SetOrderCompleteTime (oID ord) redeemTimeMs] s7
                                       else s7)
                             in if done \<and> setOrderCompleteTimeErr env = Some ErrGeneralFailure
                                then (Returns DontTryAgain,
                                      respondError (msgID msg) (saUser act) UnknownMarketError
                                        ''internal server error'' s8)
                                else if \<not> saIsMaker act then (Returns DontTryAgain, s8)
                                else if newRequestErr env then (Returns DontTryAgain, s8)
                                else (Returns DontTryAgain,
                                      emit [RedemptionRequest (saUser cp) (oID (saOrder cp)) matchID
                                              redeemTimeMs (rCoinID params) (rSecret params)
                                              (Sub (Add redeemT (bTimeout s8)) (Now env))] s8)))))"

subsection \<open>The init and redeem handlers\<close>

text \<open>
  The expiry of the coin waiter, as handleInit and handleRedeem compute it from the
  clock, the package variable txWaitExpiration, the last event and the broadcast timeout.
\<close>

definition waiterExpiry :: "Time \<Rightarrow> Duration \<Rightarrow> Time \<Rightarrow> Duration \<Rightarrow> Time" where
  "waiterExpiry now txWaitExpiration lastEvent bt =
     (let expireTime = Add now txWaitExpiration
      in if IsZero lastEvent then expireTime
         else if After expireTime (Add lastEvent bt) then Add lastEvent bt
         else expireTime)"

text \<open>
  handleInit. The result is the *msgjson.Error it returns (\<open>None\<close> for nil);
  \<open>txWaitExpiration\<close> is the value of the package variable. When the decoder leaves
  the params nil, authUser calls Serialize on the nil params, which panics.
\<close>

definition handleInit ::
  "Env \<Rightarrow> Duration \<Rightarrow> AccountID \<Rightarrow> Message \<Rightarrow> Swapper \<Rightarrow> (msgError option) exec \<times> Swapper" where
  "handleInit env txWaitExpiration usr msg s =
     (if stop s
      then (Returns (Some (MsgError TryAgainLaterError
                             ''The swapper is stopping. Try again later.'')), s)
      else case unmarshalInit env (Payload msg) of
             DecodeError \<Rightarrow>
               (Returns (Some (MsgError RPCParseError ''Error decoding init method params'')), s)
           | DecodedNil \<Rightarrow> (Panics ''nil pointer dereference'', s)
           | Decoded params \<Rightarrow>
               if \<not> AuthInit env usr params
               then (Returns (Some (MsgError SignatureError ''error authenticating init params'')), s)
               else if length (iMatchID params) \<noteq> MatchIDSize
               then (Returns (Some (MsgError RPCParseError
                                      ''Invalid matchid in init message'')), s)
               else
                 (case step (BaseToQuote env) usr (iMatchID params) s of
                    Panics e \<Rightarrow> (Panics e, s)
                  | Returns (Inl rpcErr) \<Rightarrow> (Returns (Some rpcErr), s)
                  | Returns (Inr stepInfo) \<Rightarrow>
                      (let match = trackers s (siMatch stepInfo)
                       in if Status match \<noteq> NewlyMatched \<and> Status match \<noteq> MakerSwapCast
                          then (Returns (Some (MsgError SettlementSequenceError
                                                 ''swap contract already provided'')), s)
                          else
                            (case ValidateCoinID (siAsset stepInfo) (iCoinID params) of
                               None \<Rightarrow>
                                 (Returns (Some (MsgError ContractError
                                                   ''invalid contract coinID or script'')), s)
                             | Some coinStr \<Rightarrow>
                                 if \<not> ValidateContract (siAsset stepInfo) (iContract params)
                                 then (Returns (Some (MsgError ContractError
                                                        ''invalid swap contract'')), s)
                                 else
                                   (let s1 = setLiveWaiter usr msg s;
                                        lastEvent =
                                          (if siStep stepInfo = MakerSwapCast
                                           then swapConfTime (makerStatus match)
                                           else time match);
                                        expireTime = waiterExpiry (Now env) txWaitExpiration
                                                       lastEvent (bTimeout s1)
                                    in (Returns None,
                                        s1\<lparr>latencyQ := latencyQ s1 @
                                              [\<lparr>Expiration = expireTime, wUser = usr,
                                                wJob = InitJob msg params stepInfo\<rparr>]\<rparr>))))))"

text \<open>
  handleRedeem; it does not look at the match status before it starts the waiter. Nil
  params panic in authUser as in handleInit.
\<close>

definition handleRedeem ::
  "Env \<Rightarrow> Duration \<Rightarrow> AccountID \<Rightarrow> Message \<Rightarrow> Swapper \<Rightarrow> (msgError option) exec \<times> Swapper" where
  "handleRedeem env txWaitExpiration usr msg s =
     (if stop s
      then (Returns (Some (MsgError TryAgainLaterError
                             ''The swapper is stopping. Try again later.'')), s)
      else case unmarshalRedeem env (Payload msg) of
             DecodeError \<Rightarrow>
               (Returns (Some (MsgError RPCParseError
                                 ''Error decoding redeem request payload'')), s)
           | DecodedNil \<Rightarrow> (Panics ''nil pointer dereference'', s)
           | Decoded params \<Rightarrow>
               if \<not> AuthRedeem env usr params
               then (Returns (Some (MsgError SignatureError ''error authenticating init params'')), s)
               else if length (rMatchID params) \<noteq> MatchIDSize
               then (Returns (Some (MsgError RPCParseError
                                      ''Invalid matchid in redeem message'')), s)
               else
                 (case step (BaseToQuote env) usr (rMatchID params) s of
                    Panics e \<Rightarrow> (Panics e, s)
                  | Returns (Inl rpcErr) \<Rightarrow> (Returns (Some rpcErr), s)
                  | Returns (Inr stepInfo) \<Rightarrow>
                      (case ValidateCoinID (siAsset stepInfo) (rCoinID params) of
                         None \<Rightarrow>
                           (Returns (Some (MsgError ContractError
                                             ''invalid redeem parameters'')), s)
                       | Some coinStr \<Rightarrow>
                           (let match = trackers s (siMatch stepInfo);
                                s1 = setLiveWaiter usr msg s;
                                lastEvent =
                                  (if siStep stepInfo = MakerRedeemed
                                   then redeemSeenTime (makerStatus match)
                                   else swapConfTime (takerStatus match));
                                expireTime = waiterExpiry (Now env) txWaitExpiration
                                               lastEvent (bTimeout s1)
                            in (Returns None,
                                s1\<lparr>latencyQ := latencyQ s1 @
                                      [\<lparr>Expiration = expireTime, wUser = usr,
                                        wJob = RedeemJob msg params stepInfo\<rparr>]\<rparr>)))))"

text \<open>The TryFunc and ExpireFunc closures of the two waiters.\<close>

definition tryFunc :: "Env \<Rightarrow> Waiter \<Rightarrow> Swapper \<Rightarrow> TryDirective exec \<times> Swapper" where
  "tryFunc env w s =
     (case wJob w of
        InitJob msg params stepInfo \<Rightarrow>
          (case processInit env msg params stepInfo s of
             (Returns DontTryAgain, s') \<Rightarrow> (Returns DontTryAgain, rmLiveWaiter (wUser w) (msgID msg) s')
           | r \<Rightarrow> r)
      | RedeemJob msg params stepInfo \<Rightarrow>
          (case processRedeem env msg params stepInfo s of
             (Returns DontTryAgain, s') \<Rightarrow> (Returns DontTryAgain, rmLiveWaiter (wUser w) (msgID msg) s')
           | r \<Rightarrow> r))"

definition expireFunc :: "Waiter \<Rightarrow> Swapper \<Rightarrow> Swapper" where
  "expireFunc w s =
     (case wJob w of
        InitJob msg params stepInfo \<Rightarrow>
          respondError (msgID msg) (wUser w) TransactionUndiscovered
            ''failed to find contract coin'' (rmLiveWaiter (wUser w) (msgID msg) s)
      | RedeemJob msg params stepInfo \<Rightarrow>
          respondError (msgID msg) (wUser w) TransactionUndiscovered
            ''failed to find redeemed coin'' (rmLiveWaiter (wUser w) (msgID msg) s))"

subsection \<open>Saved state and its restoration\<close>

text \<open>
  swapStatusData, matchTrackerData and State, with the fields restoreState reads. Times
  are Unix milliseconds.
\<close>

record swapStatusData =
  sdSwapAsset :: uint32
  sdRedeemAsset :: uint32
  sdSwapTime :: int
  sdContractCoinOut :: bytes
  sdContractScript :: bytes
  sdSwapConfirmTime :: int
  sdRedeemTime :: int
  sdRedeemCoinIn :: bytes

record matchTrackerData =
  mtdMatch :: Match
  mtdTime :: int
  mtdMakerStatus :: swapStatusData
  mtdTakerStatus :: swapStatusData

record State =
  stAssets :: "uint32 list"
  stMatchTrackers :: "(MatchID \<times> matchTrackerData) list"
  stOrderMatches :: orderSwapTracker
  stLiveWaiters :: "(waiterKey \<times> handlerArgs) list"

definition UnixTimeMilli :: "int \<Rightarrow> Time" where
  "UnixTimeMilli ms = 62135596800 * 1000000000 + ms * 1000000"

definition newSwapStatus :: "uint32 \<Rightarrow> uint32 \<Rightarrow> swapStatus" where
  "newSwapStatus sa ra =
     \<lparr>swapAsset = sa, redeemAsset = ra, swapTime = 0, swap = None, swapConfirmed = 0,
      redeemTime = 0, redemption = None\<rparr>"

text \<open>
  The closure translateSwapStatus of restoreState: \<open>Returns None\<close> is an error return.
  The backend of an asset that is not in the coins map is reached through a nil pointer.
\<close>

definition translateSwapStatus ::
  "(uint32 \<times> LockableAsset) list \<Rightarrow> swapStatus \<Rightarrow> swapStatusData \<Rightarrow> bytes
     \<Rightarrow> (swapStatus option) exec" where
  "translateSwapStatus cs ss ssd cpSwapCoin =
     (let r1 =
            (if 0 < length (sdContractCoinOut ssd)
             then (case map_of cs (sdSwapAsset ssd) of
                     None \<Rightarrow> Panics ''nil pointer dereference''
                   | Some a \<Rightarrow>
                       (case ContractOf a (sdContractCoinOut ssd) (sdContractScript ssd) of
                          Inl e \<Rightarrow> Returns None
                        | Inr c \<Rightarrow>
                            Returns (Some (ss\<lparr>swap := Some c,
                                              swapTime := UnixTimeMilli (sdSwapTime ssd)\<rparr>))))
             else Returns (Some ss))
      in case r1 of
           Panics e \<Rightarrow> Panics e
         | Returns None \<Rightarrow> Returns None
         | Returns (Some ss1) \<Rightarrow>
             (let ss2 = (if sdSwapConfirmTime ssd \<noteq> 0
                         then ss1\<lparr>swapConfirmed := UnixTimeMilli (sdSwapConfirmTime ssd)\<rparr>
                         else ss1)
              in if 0 < length (sdRedeemCoinIn ssd)
                 then (case map_of cs (sdRedeemAsset ssd) of
                         None \<Rightarrow> Panics ''nil pointer dereference''
                       | Some a \<Rightarrow>
                           (case RedemptionOf a (sdRedeemCoinIn ssd) cpSwapCoin of
                              Inl e \<Rightarrow> Returns None
                            | Inr r \<Rightarrow>
                                Returns (Some (ss2\<lparr>redemption := Some r,
                                                   redeemTime := UnixTimeMilli (sdRedeemTime ssd)\<rparr>))))
                 else Returns (Some ss2)))"

text \<open>The loop of restoreState over the saved match trackers.\<close>

fun restoreMatches ::
  "uint32 list \<Rightarrow> (MatchID \<times> matchTrackerData) list \<Rightarrow> Swapper \<Rightarrow> unit exec \<times> Swapper" where
  "restoreMatches missingAssets [] s = (Returns (), s)"
| "restoreMatches missingAssets ((mid, mtd) # rest) s =
     (let makerSwapAsset = sdSwapAsset (mtdMakerStatus mtd);
          makerRedeemAsset = sdRedeemAsset (mtdMakerStatus mtd)
      in if makerSwapAsset \<in> set missingAssets then restoreMatches missingAssets rest s
         else if makerRedeemAsset \<in> set missingAssets then restoreMatches missingAssets rest s
         else
           (case translateSwapStatus (coins s) (newSwapStatus makerSwapAsset makerRedeemAsset)
                   (mtdMakerStatus mtd) (sdContractCoinOut (mtdTakerStatus mtd)) of
              Panics e \<Rightarrow> (Panics e, s)
            | Returns None \<Rightarrow> restoreMatches missingAssets rest s
            | Returns (Some ms) \<Rightarrow>
                (case translateSwapStatus (coins s) (newSwapStatus makerRedeemAsset makerSwapAsset)
                        (mtdTakerStatus mtd) (sdContractCoinOut (mtdMakerStatus mtd)) of
                   Panics e \<Rightarrow> (Panics e, s)
                 | Returns None \<Rightarrow> restoreMatches missingAssets rest s
                 | Returns (Some ts) \<Rightarrow>
                     (let mt = Match.extend (mtdMatch mtd)
                                 (matchTracker.fields (UnixTimeMilli (mtdTime mtd))
                                    (EpochEnd (mtdMatch mtd)) ms ts);
                          p = nextAddr s;
                          s1 = s\<lparr>trackers := (trackers s)(p := mt), nextAddr := Suc p\<rparr>
                      in restoreMatches missingAssets rest (addMatch p s1)))))"

text \<open>The loop of restoreState over the saved live waiters; a handler's error is logged.\<close>

fun restoreWaiters ::
  "Env \<Rightarrow> Duration \<Rightarrow> (waiterKey \<times> handlerArgs) list \<Rightarrow> Swapper \<Rightarrow> unit exec \<times> Swapper" where
  "restoreWaiters env txWaitExpiration [] s = (Returns (), s)"
| "restoreWaiters env txWaitExpiration ((k, waitDat) # rest) s =
     (let rt = Route (haMsg waitDat)
      in if rt = InitRoute
         then (case handleInit env txWaitExpiration (haUser waitDat) (haMsg waitDat) s of
                 (Panics e, s') \<Rightarrow> (Panics e, s')
               | (Returns msgErr, s') \<Rightarrow> restoreWaiters env txWaitExpiration rest s')
         else if rt = RedeemRoute
         then (case handleRedeem env txWaitExpiration (haUser waitDat) (haMsg waitDat) s of
                 (Panics e, s') \<Rightarrow> (Panics e, s')
               | (Returns msgErr, s') \<Rightarrow> restoreWaiters env txWaitExpiration rest s')
         else restoreWaiters env txWaitExpiration rest s)"

datatype swapperError =
    ErrDataFolderDoesNotExist
  | ErrNotADirectory
  | ErrMaxFeeRateZero string
  | ErrLoadSpecifiedStateFile
  | ErrReadDataDir
  | ErrGetStateHash
  | ErrFileHash
  | ErrConsistencyCheck
  | ErrLoadStateFile
  | ErrMissingBackend uint32

text \<open>restoreState; \<open>Returns (Some e)\<close> is the error it returns.\<close>

definition restoreState ::
  "Env \<Rightarrow> Duration \<Rightarrow> State \<Rightarrow> bool \<Rightarrow> Swapper \<Rightarrow> (swapperError option) exec \<times> Swapper" where
  "restoreState env txWaitExpiration state allowPartial s =
     (let missingAssets = filter (\<lambda>a. map_of (coins s) a = None) (stAssets state)
      in if missingAssets \<noteq> [] \<and> \<not> allowPartial
         then (Returns (Some (ErrMissingBackend (hd missingAssets))), s)
         else
           (case restoreMatches missingAssets (stMatchTrackers state)
                   (s\<lparr>matches := [], userMatches := Map.empty\<rparr>) of
              (Panics e, s1) \<Rightarrow> (Panics e, s1)
            | (Returns u, s1) \<Rightarrow>
                (case restoreWaiters env txWaitExpiration (stLiveWaiters state)
                        (s1\<lparr>orders := stOrderMatches state\<rparr>) of
                   (Panics e, s2) \<Rightarrow> (Panics e, s2)
                 | (Returns v, s2) \<Rightarrow> (Returns None, s2))))"

subsection \<open>The constructor\<close>

datatype statResult = StatNotExist | StatOtherError | StatOK bool

text \<open>
  Config, with the fields of plain data; and what the file system and the stored state
  hash answer while NewSwapper runs: os.Stat of the data folder (\<open>StatOK d\<close> carries
  IsDir), LoadStateFile (\<open>None\<close> is an error), LatestStateFile (\<open>None\<close> is an error,
  \<open>Some None\<close> no file), GetStateHash and encode.FileHash (\<open>None\<close> is an error), and
  the order book behind the unbook hook.
\<close>

record Config =
  DataDir :: string
  AllowPartialRestore :: bool
  Assets :: "(uint32 \<times> LockableAsset) list"
  BroadcastTimeout :: Duration
  LockTimeTaker :: Duration
  LockTimeMaker :: Duration
  IgnoreState :: bool
  StatePath :: string

record StartEnv =
  statDataDir :: statResult
  loadStateFile :: "string \<Rightarrow> State option"
  latestStateFile :: "string option option"
  getStateHash :: "bytes option"
  fileHash :: "string \<Rightarrow> bytes option"
  orderBook :: "OrderID list"

definition nilOrder :: Order where
  "nilOrder = \<lparr>oID = [], oUser = [], oType = LimitOrderType, BaseAsset = 0, QuoteAsset = 0,
               Sell = False, oRate = 0, SwapAddress = []\<rparr>"

definition nilTracker :: matchTracker where
  "nilTracker =
     \<lparr>mID = [], Maker = nilOrder, Taker = nilOrder, Quantity = 0, Rate = 0,
      Status = NewlyMatched, EpochEnd = 0, FeeRateBase = 0, FeeRateQuote = 0,
      time = 0, matchTime = 0, makerStatus = newSwapStatus 0 0, takerStatus = newSwapStatus 0 0\<rparr>"

text \<open>
  The loading of the initial state in NewSwapper: an error, or the state to restore, if
  any; with the calls made.
\<close>

definition loadInitialState ::
  "Config \<Rightarrow> StartEnv \<Rightarrow> (swapperError + State option) \<times> event list" where
  "loadInitialState cfg fs =
     (if StatePath cfg \<noteq> []
      then (case loadStateFile fs (StatePath cfg) of
              None \<Rightarrow> (Inl ErrLoadSpecifiedStateFile, [LoadStateFile (StatePath cfg)])
            | Some st \<Rightarrow> (Inr (Some st), [LoadStateFile (StatePath cfg)]))
      else if \<not> IgnoreState cfg
      then (case latestStateFile fs of
              None \<Rightarrow> (Inl ErrReadDataDir, [LatestStateFile (DataDir cfg)])
            | Some None \<Rightarrow> (Inr None, [LatestStateFile (DataDir cfg)])
            | Some (Some name) \<Rightarrow>
                (case getStateHash fs of
                   None \<Rightarrow> (Inl ErrGetStateHash, [LatestStateFile (DataDir cfg), GetStateHash])
                 | Some stateHash \<Rightarrow>
                     if 0 < length stateHash
                     then (case fileHash fs name of
                             None \<Rightarrow>
                               (Inl ErrFileHash,
                                [LatestStateFile (DataDir cfg), GetStateHash, FileHash name])
                           | Some h \<Rightarrow>
                               if stateHash \<noteq> h
                               then (Inl ErrConsistencyCheck,
                                     [LatestStateFile (DataDir cfg), GetStateHash, FileHash name])
                               else (case loadStateFile fs name of
                                       None \<Rightarrow>
                                         (Inl ErrLoadStateFile,
                                          [LatestStateFile (DataDir cfg), GetStateHash,
                                           FileHash name, LoadStateFile name])
                                     | Some st \<Rightarrow>
                                         (Inr (Some st),
                                          [LatestStateFile (DataDir cfg), GetStateHash,
                                           FileHash name, LoadStateFile name])))
                     else (Inr None, [LatestStateFile (DataDir cfg), GetStateHash])))
      else (Inr None, []))"

text \<open>
  NewSwapper. The arguments are the configuration, the answers of the environment and the
  value of the package variable txWaitExpiration at the call; the result is what the
  call returns (an error or the Swapper) or a panic, the value of txWaitExpiration after
  the call, and the calls made on the collaborators. After a failed os.Stat whose error
  is not a not-exist error the FileInfo is nil and IsDir panics.
\<close>

definition NewSwapper ::
  "Config \<Rightarrow> StartEnv \<Rightarrow> Env \<Rightarrow> Duration
     \<Rightarrow> (swapperError + Swapper) exec \<times> Duration \<times> event list" where
  "NewSwapper cfg fs env txWaitExpiration =
     (case statDataDir fs of
        StatNotExist \<Rightarrow> (Returns (Inl ErrDataFolderDoesNotExist), txWaitExpiration, [])
      | StatOtherError \<Rightarrow> (Panics ''nil pointer dereference'', txWaitExpiration, [])
      | StatOK isDir \<Rightarrow>
          if \<not> isDir then (Returns (Inl ErrNotADirectory), txWaitExpiration, [])
          else
            (case find (\<lambda>(aid, a). MaxFeeRate a = 0) (Assets cfg) of
               Some (aid, a) \<Rightarrow>
                 (Returns (Inl (ErrMaxFeeRateZero (Symbol a))), txWaitExpiration, [])
             | None \<Rightarrow>
                 (let swapper =
                        \<lparr>dataDir = DataDir cfg, coins = Assets cfg, trackers = (\<lambda>p. nilTracker),
                         nextAddr = 0, matches = [], userMatches = Map.empty,
                         orders = newOrderSwapTracker, bTimeout = BroadcastTimeout cfg,
                         lockTimeTaker = LockTimeTaker cfg, lockTimeMaker = LockTimeMaker cfg,
                         latencyQ = [], stop = False, liveWaiters = [],
                         book = orderBook fs, trace = []\<rparr>;
                      sensible = bTimeout swapper;
                      txWait = (if sensible < txWaitExpiration then sensible
                                else txWaitExpiration)
                  in case loadInitialState cfg fs of
                       (Inl err, evs) \<Rightarrow> (Returns (Inl err), txWait, evs)
                     | (Inr None, evs) \<Rightarrow>
                         (let s1 = emit (evs @ [RouteRegistered InitRoute,
                                                 RouteRegistered RedeemRoute]) swapper
                          in (Returns (Inr s1), txWait, trace s1))
                     | (Inr (Some state), evs) \<Rightarrow>
                         (case restoreState env txWait state (AllowPartialRestore cfg)
                                 (emit evs swapper) of
                            (Panics e, s1) \<Rightarrow> (Panics e, txWait, trace s1)
                          | (Returns (Some err), s1) \<Rightarrow> (Returns (Inl err), txWait, trace s1)
                          | (Returns None, s1) \<Rightarrow>
                              (let s2 = emit [RouteRegistered InitRoute,
                                              RouteRegistered RedeemRoute] s1
                               in (Returns (Inr s2), txWait, trace s2))))))"

section \<open>Notions used to state the properties\<close>

fun isInaction :: "event \<Rightarrow> bool" where
  "isInaction (Inaction u l i q t d) = True"
| "isInaction _ = False"

text \<open>
  The entry of an order after one decrement of its active swaps, in the words of the
  specification: the counter is one less, the entry is marked failed when the decrement
  is a failure, and an entry whose counter reaches zero is removed unless it has failed
  and is still on the book. An order without an entry stays without one. And the entry
  after a cancellation: off-book and failed, the counter unchanged.
\<close>

definition afterDecrement :: "bool \<Rightarrow> orderSwapStat option \<Rightarrow> orderSwapStat option" where
  "afterDecrement failed entry =
     (case entry of
        None \<Rightarrow> None
      | Some st \<Rightarrow>
          (let st' = \<lparr>SwapCount = SwapCount st - 1, OffBook = OffBook st,
                      HasFailed = (HasFailed st \<or> failed)\<rparr>
           in if SwapCount st' = 0 \<and> \<not> (HasFailed st' \<and> \<not> OffBook st') then None
              else Some st'))"

definition afterCancel :: "orderSwapStat option \<Rightarrow> orderSwapStat option" where
  "afterCancel entry =
     (case entry of
        None \<Rightarrow> None
      | Some st \<Rightarrow> Some \<lparr>SwapCount = SwapCount st, OffBook = True, HasFailed = True\<rparr>)"

text \<open>
  What a decrement that is not a failure reports: an order with an entry has become
  successfully complete when the decrement brings its counter to zero while it is
  off-book and has not failed; for an order without an entry the tracker reports
  completion as well.
\<close>

definition reportsComplete :: "orderSwapStat option \<Rightarrow> bool" where
  "reportsComplete entry =
     (case entry of
        None \<Rightarrow> True
      | Some st \<Rightarrow> SwapCount st - 1 = 0 \<and> OffBook st \<and> \<not> HasFailed st)"

text \<open>
  What a revocation that blames one party does, between the state \<open>s\<close> before failMatch
  and the state \<open>s'\<close> after it: the only Inaction call made is the one that charges
  the user of the order at fault with the label and the reference time; and in the order
  tracker the entry of the order at fault is first marked canceled, when it is a limit
  order that the unbook hook found on the book, and then decremented as a failure, after
  which the entry of the other order is decremented with failed = false. No other entry
  changes.
\<close>

definition revokedAgainst ::
  "bool \<Rightarrow> NoActionStep \<Rightarrow> Time \<Rightarrow> matchTracker \<Rightarrow> Swapper \<Rightarrow> Swapper \<Rightarrow> bool" where
  "revokedAgainst makerAtFault label refTime m s s' =
     (let atFault = (if makerAtFault then Maker m else Taker m);
          other = (if makerAtFault then Taker m else Maker m);
          om0 = (if (makerAtFault \<or> oType atFault = LimitOrderType) \<and> oID atFault \<in> set (book s)
                 then (orders s)(oID atFault := afterCancel (orders s (oID atFault)))
                 else orders s);
          om1 = om0(oID atFault := afterDecrement True (om0 (oID atFault)))
      in filter isInaction (drop (length (trace s)) (trace s'))
           = [Inaction (oUser atFault) label (mID m) (Quantity m) refTime (oID atFault)]
         \<and> orders s' = om1(oID other := afterDecrement False (om1 (oID other))))"

text \<open>The per-user index holds a match for a user.\<close>

definition inUserIndex :: "Swapper \<Rightarrow> AccountID \<Rightarrow> MatchID \<Rightarrow> bool" where
  "inUserIndex s usr mid =
     (case userMatches s usr of
        None \<Rightarrow> False
      | Some ms \<Rightarrow> map_of ms mid \<noteq> None)"

text \<open>
  The claim's rule for the asset of a step, in its words: the step is on the base asset
  exactly when (NewlyMatched and the maker sells) or (MakerSwapCast and the maker buys) or
  (TakerSwapCast and the maker buys) or (MakerRedeemed and the maker sells).
\<close>

definition stepOnBase :: "MatchStatus \<Rightarrow> bool \<Rightarrow> bool" where
  "stepOnBase st makerSell =
     ((st = NewlyMatched \<and> makerSell) \<or> (st = MakerSwapCast \<and> \<not> makerSell)
      \<or> (st = TakerSwapCast \<and> \<not> makerSell) \<or> (st = MakerRedeemed \<and> makerSell))"


fun isCompletion :: "event \<Rightarrow> bool" where
  "isCompletion (RecordCompletedOrder u oid t) = True"
| "isCompletion (SetOrderCompleteTime oid ms) = True"
| "isCompletion _ = False"

section \<open>Concrete states used in the examples\<close>

text \<open>
  An asset whose backend does not find the coin \<open>[0]\<close>, fails on the coin \<open>[1]\<close>, and
  resolves every other coin to a contract of value 100 paying to the taker's address; a
  secret is valid when it equals the script.
\<close>

definition exAsset :: "string \<Rightarrow> LockableAsset" where
  "exAsset nm =
     \<lparr>Symbol = nm, MaxFeeRate = 10, SwapConf = 1,
      ValidateCoinID = (\<lambda>c. if c = [] then None else Some ''coin''),
      ValidateContract = (\<lambda>c. c \<noteq> []),
      ContractOf = (\<lambda>c script. if c = [0] then Inl CoinNotFoundError
                      else if c = [1] then Inl OtherBackendError
                      else Inr \<lparr>cID = c, cFeeRate = 5, cSwapAddress = ''takerAddr'',
                               cValue = 100, cLockTime = 63900086400000000000,
                               cRedeemScript = script\<rparr>),
      RedemptionOf = (\<lambda>c cp. if c = [0] then Inl CoinNotFoundError
                      else if c = [1] then Inl OtherBackendError else Inr c),
      ValidateSecret = (\<lambda>secret script. secret = script)\<rparr>"

text \<open>
  A match of 100 units between the selling maker order \<open>[1]\<close> of user \<open>[7]\<close> and the
  buying taker order \<open>[2]\<close> of user \<open>[8]\<close>, on the market of assets 42 and 0, first
  seen one second after its epoch ended.
\<close>

definition exMatch :: "MatchStatus \<Rightarrow> swapStatus \<Rightarrow> swapStatus \<Rightarrow> matchTracker" where
  "exMatch st ms ts =
     \<lparr>mID = replicate 32 9,
      Maker = (exOrder [1] [7] True)\<lparr>SwapAddress := ''makerAddr''\<rparr>,
      Taker = (exOrder [2] [8] False)\<lparr>SwapAddress := ''takerAddr''\<rparr>,
      Quantity = 100, Rate = 150000, Status = st,
      EpochEnd = 63900000000000000000, FeeRateBase = 5, FeeRateQuote = 5,
      time = 63900000001000000000, matchTime = 63900000000000000000,
      makerStatus = ms, takerStatus = ts\<rparr>"

text \<open>A Swapper with that one match registered, and a broadcast timeout of one minute.\<close>

definition exSwapper :: "matchTracker \<Rightarrow> orderSwapTracker \<Rightarrow> Swapper" where
  "exSwapper m om =
     \<lparr>dataDir = ''data'', coins = [(42, exAsset ''dcr''), (0, exAsset ''btc'')],
      trackers = (\<lambda>p. m), nextAddr = 1, matches = [(mID m, 0)],
      userMatches = [oUser (Maker m) \<mapsto> [(mID m, 0)], oUser (Taker m) \<mapsto> [(mID m, 0)]],
      orders = om, bTimeout = 60000000000, lockTimeTaker = 28800000000000,
      lockTimeMaker = 72000000000000, latencyQ = [], stop = False, liveWaiters = [],
      book = [], trace = []\<rparr>"

definition exOrders :: orderSwapTracker where
  "exOrders = [[1] \<mapsto> \<lparr>SwapCount = 1, OffBook = True, HasFailed = False\<rparr>,
               [2] \<mapsto> \<lparr>SwapCount = 1, OffBook = True, HasFailed = False\<rparr>]"

text \<open>
  An environment at a present-day clock reading in which the empty payload does not
  decode, the payload \<open>null\<close> leaves the params nil, and every other payload decodes
  to a message for the example match with the payload as coin ID and \<open>[5]\<close> as
  contract or secret; every signature is accepted and the storage works.
\<close>

definition exEnv :: Env where
  "exEnv =
     \<lparr>Now = 63900000100000000000,
      BaseToQuote = (\<lambda>rate qty. rate * qty div 100000000),
      unmarshalInit = (\<lambda>pl. if pl = [] then DecodeError
                        else if pl = [110, 117, 108, 108] then DecodedNil
                        else Decoded \<lparr>iOrderID = [2], iMatchID = replicate 32 9,
                                   iCoinID = pl, iContract = [5]\<rparr>),
      unmarshalRedeem = (\<lambda>pl. if pl = [] then DecodeError
                        else if pl = [110, 117, 108, 108] then DecodedNil
                        else Decoded \<lparr>rOrderID = [2], rMatchID = replicate 32 9,
                                   rCoinID = pl, rSecret = [5]\<rparr>),
      AuthInit = (\<lambda>u p. True), AuthRedeem = (\<lambda>u p. True),
      saveContractErr = False, newRequestErr = False, setOrderCompleteTimeErr = None\<rparr>"

definition exMsg :: "string \<Rightarrow> bytes \<Rightarrow> Message" where
  "exMsg rt pl = \<lparr>msgID = 3, Route = rt, Payload = pl\<rparr>"

definition exContract :: "bytes \<Rightarrow> Contract" where
  "exContract script =
     \<lparr>cID = [4], cFeeRate = 5, cSwapAddress = ''addr'', cValue = 100,
      cLockTime = 63900086400000000000, cRedeemScript = script\<rparr>"

text \<open>
  A configuration with a broadcast timeout of one minute that ignores saved state, and a
  file system whose data folder exists.
\<close>

definition exConfig :: "(uint32 \<times> LockableAsset) list \<Rightarrow> Config" where
  "exConfig as =
     \<lparr>DataDir = ''data'', AllowPartialRestore = False, Assets = as,
      BroadcastTimeout = 60000000000, LockTimeTaker = 28800000000000,
      LockTimeMaker = 72000000000000, IgnoreState = True, StatePath = []\<rparr>"

definition exStartEnv :: StartEnv where
  "exStartEnv =
     \<lparr>statDataDir = StatOK True, loadStateFile = (\<lambda>path. None), latestStateFile = Some None,
      getStateHash = Some [], fileHash = (\<lambda>name. None), orderBook = []\<rparr>"

text \<open>
  A saved state with the example match in MakerRedeemed whose record of the maker's
  redemption is missing (no redeem coin, no redeem time).
\<close>

definition exState :: State where
  "exState =
     \<lparr>stAssets = [42, 0],
      stMatchTrackers =
        [(replicate 32 9,
          \<lparr>mtdMatch = Match.truncate (exMatch MakerRedeemed (newSwapStatus 42 0) (newSwapStatus 0 42)),
           mtdTime = 1764403201000,
           mtdMakerStatus =
             \<lparr>sdSwapAsset = 42, sdRedeemAsset = 0, sdSwapTime = 1764403210000,
              sdContractCoinOut = [4], sdContractScript = [5],
              sdSwapConfirmTime = 1764403220000, sdRedeemTime = 0, sdRedeemCoinIn = []\<rparr>,
           mtdTakerStatus =
             \<lparr>sdSwapAsset = 0, sdRedeemAsset = 42, sdSwapTime = 1764403230000,
              sdContractCoinOut = [3], sdContractScript = [5],
              sdSwapConfirmTime = 1764403240000, sdRedeemTime = 0, sdRedeemCoinIn = []\<rparr>\<rparr>)],
      stOrderMatches = exOrders,
      stLiveWaiters = []\<rparr>"

text \<open>
  The example match with a maker that sells or buys (the taker takes the other side), and
  the Swapper that holds it; both orders on the book with two active swaps each.
\<close>

definition exMatchSide :: "bool \<Rightarrow> MatchStatus \<Rightarrow> matchTracker" where
  "exMatchSide makerSell st =
     (exMatch st (newSwapStatus 42 0) (newSwapStatus 0 42))
       \<lparr>Maker := (exOrder [1] [7] makerSell)\<lparr>SwapAddress := ''makerAddr''\<rparr>,
        Taker := (exOrder [2] [8] (\<not> makerSell))\<lparr>SwapAddress := ''takerAddr''\<rparr>\<rparr>"

definition exOrdersOnBook :: orderSwapTracker where
  "exOrdersOnBook = [[1] \<mapsto> \<lparr>SwapCount = 2, OffBook = False, HasFailed = False\<rparr>,
                     [2] \<mapsto> \<lparr>SwapCount = 2, OffBook = False, HasFailed = False\<rparr>]"

section \<open>Properties of the order swap tracker\<close>

lemma dec_untracked:
  "om (oID ord) = None \<Longrightarrow> decrementActiveSwapCount ord failed om = (True, om)"
  by (simp add: decrementActiveSwapCount_def)

lemma dec_tracked_result:
  "om (oID ord) = Some stat \<Longrightarrow>
     fst (decrementActiveSwapCount ord failed om)
       = (SwapCount stat - 1 = 0 \<and> OffBook stat \<and> \<not> HasFailed stat \<and> \<not> failed)"
  by (auto simp: decrementActiveSwapCount_def Let_def)

lemma dec_tracked_true_removes:
  "om (oID ord) = Some stat \<Longrightarrow> fst (decrementActiveSwapCount ord failed om) \<Longrightarrow>
     snd (decrementActiveSwapCount ord failed om) (oID ord) = None"
  by (auto simp: decrementActiveSwapCount_def Let_def split: if_splits)

lemma dec_other_unchanged:
  "oid \<noteq> oID ord \<Longrightarrow> snd (decrementActiveSwapCount ord failed om) oid = om oid"
  by (auto simp: decrementActiveSwapCount_def Let_def split: option.splits)

lemma dec_absent_stays_absent:
  "om oid = None \<Longrightarrow> snd (decrementActiveSwapCount ord failed om) oid = None"
  by (cases "oid = oID ord")
     (auto simp: decrementActiveSwapCount_def Let_def split: option.splits)

lemma inc_other_unchanged:
  "oid \<noteq> oID ord \<Longrightarrow> incActiveSwapCount ord b om oid = om oid"
  by (auto simp: incActiveSwapCount_def Let_def split: option.splits)

lemma inc_present: "incActiveSwapCount ord b om (oID ord) \<noteq> None"
  by (auto simp: incActiveSwapCount_def Let_def split: option.splits)

lemma canceled_presence: "(canceled ord om oid = None) = (om oid = None)"
  by (auto simp: canceled_def Let_def split: option.splits)

text \<open>
  What the tracker methods store: decrementActiveSwapCount changes the entry of its order
  as \<open>afterDecrement\<close> says and no other entry, and its result is
  \<open>reportsComplete\<close> when the decrement is not a failure; canceled changes the
  entry of its order as \<open>afterCancel\<close> says.
\<close>

lemma dec_stores:
  "snd (decrementActiveSwapCount ord failed om)
     = om(oID ord := afterDecrement failed (om (oID ord)))"
  by (cases "om (oID ord)")
     (auto simp: decrementActiveSwapCount_def afterDecrement_def Let_def fun_upd_idem)

lemma dec_false_reports:
  "fst (decrementActiveSwapCount ord False om) = reportsComplete (om (oID ord))"
  by (cases "om (oID ord)")
     (auto simp: decrementActiveSwapCount_def reportsComplete_def Let_def)

lemma canceled_stores:
  "canceled ord om = om(oID ord := afterCancel (om (oID ord)))"
  by (cases "om (oID ord)") (auto simp: canceled_def afterCancel_def Let_def fun_upd_idem)

text \<open>
  One operation: a true return on a tracked order removes the entry, and only a creating
  increment brings one back.
\<close>

lemma tracker_op_invariant:
  "(if returnsTrue oid op om \<and> om oid \<noteq> None then 1 else 0)
     + (if applyOp op om oid = None then 0 else (1::nat))
   \<le> (if createsEntry oid op om then 1 else 0) + (if om oid = None then 0 else 1)"
proof (cases op)
  case (IncActive ord b)
  then show ?thesis
    by (cases "oID ord = oid") (auto simp: inc_other_unchanged inc_present)
next
  case (DecActive ord failed)
  show ?thesis
  proof (cases "oID ord = oid")
    case True
    then show ?thesis using DecActive
      by (cases "om oid") (auto simp: dec_untracked dest: dec_tracked_true_removes)
  next
    case False
    then show ?thesis using DecActive
      by (auto simp: dec_other_unchanged)
  qed
next
  case (Canceled ord)
  then show ?thesis by (auto simp: canceled_presence)
qed

lemma tracked_true_le_creations:
  "trackedTrueDecs oid ops om + (if runOps ops om oid = None then 0 else 1)
     \<le> creations oid ops om + (if om oid = None then 0 else 1)"
proof (induction ops arbitrary: om)
  case Nil
  then show ?case by simp
next
  case (Cons op ops)
  have a: "trackedTrueDecs oid ops (applyOp op om)
             + (if runOps ops (applyOp op om) oid = None then 0 else 1)
           \<le> creations oid ops (applyOp op om) + (if applyOp op om oid = None then 0 else 1)"
    by (rule Cons.IH)
  have b: "(if returnsTrue oid op om \<and> om oid \<noteq> None then 1 else 0)
             + (if applyOp op om oid = None then 0 else (1::nat))
           \<le> (if createsEntry oid op om then 1 else 0) + (if om oid = None then 0 else 1)"
    by (rule tracker_op_invariant)
  show ?case using a b
    by (simp del: returnsTrue.simps createsEntry.simps applyOp.simps)
qed

lemma dec_result_cases:
  "fst (decrementActiveSwapCount ord failed om)
     = (case om (oID ord) of
          None \<Rightarrow> True
        | Some stat \<Rightarrow> SwapCount stat - 1 = 0 \<and> OffBook stat \<and> \<not> HasFailed stat \<and> \<not> failed)"
  by (cases "om (oID ord)") (simp_all add: dec_untracked dec_tracked_result)

text \<open>
  C2, as the claim states it, fails: incActiveSwapCount (off-book), then two
  decrementActiveSwapCount calls for the same order. The first call removes the entry and
  returns true; the second finds no entry and returns true again (the method's comment
  says so: repeated calls for a removed order return true).
\<close>

theorem C2_counterexample:
  "trueDecs [1] [IncActive (exOrder [1] [7] True) True,
                 DecActive (exOrder [1] [7] True) False,
                 DecActive (exOrder [1] [7] True) False] newOrderSwapTracker = 2"
  by (simp add: exOrder_def newOrderSwapTracker_def incActiveSwapCount_def
      decrementActiveSwapCount_def Let_def)

text \<open>
  C2, amended. Over every sequence of tracker operations and for every order, the
  decrementActiveSwapCount calls that return true while the order has an entry are at
  most as many as the entries of the order (the one it starts with, if any, and those
  that incActiveSwapCount creates): at most one per entry. A call for an order with an
  entry returns true exactly when the decrement brings the count to zero while the
  entry is off-book and neither the entry nor the call is marked failed, and that call
  removes the entry. A call for an order without an entry returns true.
\<close>

theorem C2_dec_true_once_per_entry:
  "trackedTrueDecs oid ops om + (if runOps ops om oid = None then 0 else 1)
     \<le> creations oid ops om + (if om oid = None then 0 else 1)
   \<and> fst (decrementActiveSwapCount ord failed om)
       = (case om (oID ord) of
            None \<Rightarrow> True
          | Some stat \<Rightarrow> SwapCount stat - 1 = 0 \<and> OffBook stat \<and> \<not> HasFailed stat \<and> \<not> failed)
   \<and> (om (oID ord) \<noteq> None \<and> fst (decrementActiveSwapCount ord failed om)
        \<longrightarrow> snd (decrementActiveSwapCount ord failed om) (oID ord) = None)"
  using tracked_true_le_creations dec_result_cases dec_tracked_true_removes
  by blast

theorem C2_dec_true_once_per_entry_witness:
  "(Map.empty([1] \<mapsto> \<lparr>SwapCount = 1, OffBook = True, HasFailed = False\<rparr>))
      (oID (exOrder [1] [7] True)) \<noteq> None
   \<and> fst (decrementActiveSwapCount (exOrder [1] [7] True) False
            (Map.empty([1] \<mapsto> \<lparr>SwapCount = 1, OffBook = True, HasFailed = False\<rparr>)))
   \<and> snd (decrementActiveSwapCount (exOrder [1] [7] True) False
            (Map.empty([1] \<mapsto> \<lparr>SwapCount = 1, OffBook = True, HasFailed = False\<rparr>)))
         (oID (exOrder [1] [7] True)) = None
   \<and> trackedTrueDecs [1] [DecActive (exOrder [1] [7] True) False,
                           DecActive (exOrder [1] [7] True) False]
         (Map.empty([1] \<mapsto> \<lparr>SwapCount = 1, OffBook = True, HasFailed = False\<rparr>)) \<le> 1"
  using C2_dec_true_once_per_entry
          [of "[1]" "[DecActive (exOrder [1] [7] True) False,
                      DecActive (exOrder [1] [7] True) False]"
              "Map.empty([1] \<mapsto> \<lparr>SwapCount = 1, OffBook = True, HasFailed = False\<rparr>)"
              "exOrder [1] [7] True" False]
  by (simp add: exOrder_def decrementActiveSwapCount_def Let_def)

text \<open>
  C4 at the failing input: an order is registered off-book, then incActiveSwapCount is
  called for it again with offBook false. The entry's OffBook flag is false afterwards,
  while the comment on the assignment says it should never change true to false.
\<close>

theorem C4_inc_clears_off_book:
  "incActiveSwapCount (exOrder [1] [7] True) False
     (incActiveSwapCount (exOrder [1] [7] True) True newOrderSwapTracker) [1]
   = Some \<lparr>SwapCount = 2, OffBook = False, HasFailed = False\<rparr>"
  by (simp add: exOrder_def newOrderSwapTracker_def incActiveSwapCount_def Let_def)

section \<open>Revocation and failure ascription\<close>

lemma trace_emit [simp]: "trace (emit evs s) = trace s @ evs"
  by (simp add: emit_def)

lemma orders_emit [simp]: "orders (emit evs s) = orders s"
  by (simp add: emit_def)

lemma coins_emit [simp]: "coins (emit evs s) = coins s"
  by (simp add: emit_def)

lemma book_emit [simp]: "book (emit evs s) = book s"
  by (simp add: emit_def)

lemma unlock_effect:
  "\<exists>evs. trace (snd (unlockOrderCoins ord s)) = trace s @ evs \<and> filter isInaction evs = []
     \<and> orders (snd (unlockOrderCoins ord s)) = orders s"
  by (auto simp: unlockOrderCoins_def unlockOrderIDCoins_def split: option.splits)

lemma revoke_effect:
  "\<exists>evs. trace (snd (revoke m s)) = trace s @ evs \<and> filter isInaction evs = []
     \<and> orders (snd (revoke m s)) = orders s"
proof -
  obtain e1 where e1: "trace (snd (unlockOrderCoins (Taker m) s)) = trace s @ e1"
      "filter isInaction e1 = []" "orders (snd (unlockOrderCoins (Taker m) s)) = orders s"
    using unlock_effect by blast
  obtain r1 s1 where u1: "unlockOrderCoins (Taker m) s = (r1, s1)" by fastforce
  obtain e2 where e2: "trace (snd (unlockOrderCoins (Maker m) s1)) = trace s1 @ e2"
      "filter isInaction e2 = []" "orders (snd (unlockOrderCoins (Maker m) s1)) = orders s1"
    using unlock_effect by blast
  obtain r2 s2 where u2: "unlockOrderCoins (Maker m) s1 = (r2, s2)" by fastforce
  show ?thesis
    using e1 e2 u1 u2
    by (cases r1; cases r2) (auto simp: revoke_def)
qed

lemma failMatch_effect:
  assumes f: "failMatchFault m = Some (label, refTime, mf)"
  shows "revokedAgainst mf label refTime m s (snd (failMatch ct m s))"
proof -
  define af where "af = (if mf then Maker m else Taker m)"
  define ot where "ot = (if mf then Taker m else Maker m)"
  define s1 where "s1 = emit [SetMatchInactive (mID m)] s"
  define s2 where "s2 =
     (if mf \<or> oType af = LimitOrderType
      then (case unbookHook af s1 of
              (True, s') \<Rightarrow> s'\<lparr>orders := canceled af (orders s')\<rparr>
            | (False, s') \<Rightarrow> s')
      else s1)"
  define s3 where "s3 = s2\<lparr>orders := swapFailure af (orders s2)\<rparr>"
  define dn where "dn = fst (swapSuccess ot (orders s3))"
  define om where "om = snd (swapSuccess ot (orders s3))"
  define s4 where "s4 = s3\<lparr>orders := om\<rparr>"
  define s5 where "s5 =
     (if dn then emit [RecordCompletedOrder (oUser ot) (oID ot) ct,
                        SetOrderCompleteTime (oID ot) (UnixMilli ct)] s4
      else s4)"
  define s6 where "s6 = emit [Inaction (oUser af) label (mID m) (Quantity m) refTime (oID af)] s5"
  define om0 where "om0 =
     (if (mf \<or> oType af = LimitOrderType) \<and> oID af \<in> set (book s)
      then (orders s)(oID af := afterCancel (orders s (oID af))) else orders s)"
  define om1 where "om1 = om0(oID af := afterDecrement True (om0 (oID af)))"
  have fm: "failMatch ct m s = revoke m s6"
    unfolding failMatch_def f s6_def s5_def s4_def om_def dn_def s3_def s2_def s1_def
      af_def ot_def
    by (simp only: option.case prod.case Let_def case_prod_beta fst_conv snd_conv)
  have t1: "trace s1 = trace s @ [SetMatchInactive (mID m)]" and o1: "orders s1 = orders s"
    and b1: "book s1 = book s"
    by (simp_all add: s1_def)
  have s2f: "orders s2 = om0 \<and> (\<exists>e. trace s2 = trace s1 @ e \<and> filter isInaction e = [])"
    by (cases "oID af \<in> set (book s)")
       (auto simp: s2_def om0_def unbookHook_def o1 b1 canceled_stores)
  then obtain e2 where t2: "trace s2 = trace s1 @ e2" and n2: "filter isInaction e2 = []"
    and o2: "orders s2 = om0" by blast
  have t3: "trace s3 = trace s2" and o3: "orders s3 = swapFailure af om0"
    by (simp_all add: s3_def o2)
  have s5f: "orders s5 = om \<and> (\<exists>e. trace s5 = trace s3 @ e \<and> filter isInaction e = [])"
    by (cases dn) (auto simp: s5_def s4_def)
  then obtain e5 where t5: "trace s5 = trace s3 @ e5" and n5: "filter isInaction e5 = []"
    and o5: "orders s5 = om" by blast
  have t6: "trace s6 = trace s5 @ [Inaction (oUser af) label (mID m) (Quantity m) refTime (oID af)]"
    and o6: "orders s6 = om"
    by (simp_all add: s6_def o5)
  obtain e7 where t7: "trace (snd (revoke m s6)) = trace s6 @ e7"
    and n7: "filter isInaction e7 = []" and o7: "orders (snd (revoke m s6)) = orders s6"
    using revoke_effect by blast
  have tr: "trace (snd (failMatch ct m s))
      = trace s @ ([SetMatchInactive (mID m)] @ e2 @ e5
          @ [Inaction (oUser af) label (mID m) (Quantity m) refTime (oID af)] @ e7)"
    by (simp add: fm t7 t6 t5 t3 t2 t1)
  have fl: "filter isInaction (drop (length (trace s)) (trace (snd (failMatch ct m s))))
      = [Inaction (oUser af) label (mID m) (Quantity m) refTime (oID af)]"
    by (simp add: tr n2 n5 n7)
  have od: "orders (snd (failMatch ct m s)) = om1(oID ot := afterDecrement False (om1 (oID ot)))"
    by (simp add: fm o7 o6 om_def o3 swapSuccess_def swapFailure_def dec_stores om1_def)
  show ?thesis
    using fl od
    by (simp add: revokedAgainst_def Let_def af_def ot_def om0_def om1_def)
qed

text \<open>
  C1. For every match, failMatch ascribes the failure by the match status as the table
  says: NewlyMatched blames the maker with NoSwapAsMaker at the epoch end, MakerSwapCast
  the taker with NoSwapAsTaker at the maker's swap time, TakerSwapCast the maker with
  NoRedeemAsMaker at the taker's swap time, MakerRedeemed the taker with NoRedeemAsTaker
  at the maker's redeem time. In each case the Inaction penalty goes to the user of the
  order at fault, and the other order is decremented with failed = false. This holds
  whether or not the final revoke panics on an unknown asset. In MatchComplete failMatch
  does nothing.
\<close>

theorem C1_failMatch_fault_table:
  "(case Status m of
      NewlyMatched \<Rightarrow>
        revokedAgainst True NoSwapAsMaker (EpochEnd m) m s (snd (failMatch ct m s))
    | MakerSwapCast \<Rightarrow>
        revokedAgainst False NoSwapAsTaker (swapTime (makerStatus m)) m s (snd (failMatch ct m s))
    | TakerSwapCast \<Rightarrow>
        revokedAgainst True NoRedeemAsMaker (swapTime (takerStatus m)) m s (snd (failMatch ct m s))
    | MakerRedeemed \<Rightarrow>
        revokedAgainst False NoRedeemAsTaker (redeemTime (makerStatus m)) m s
          (snd (failMatch ct m s))
    | MatchComplete \<Rightarrow> failMatch ct m s = (Returns (), s))"
proof (cases "Status m")
  case NewlyMatched
  then show ?thesis using failMatch_effect [of m NoSwapAsMaker "EpochEnd m" True s ct]
    by (simp add: failMatchFault_def)
next
  case MakerSwapCast
  then show ?thesis
    using failMatch_effect [of m NoSwapAsTaker "swapTime (makerStatus m)" False s ct]
    by (simp add: failMatchFault_def)
next
  case TakerSwapCast
  then show ?thesis
    using failMatch_effect [of m NoRedeemAsMaker "swapTime (takerStatus m)" True s ct]
    by (simp add: failMatchFault_def)
next
  case MakerRedeemed
  then show ?thesis
    using failMatch_effect [of m NoRedeemAsTaker "redeemTime (makerStatus m)" False s ct]
    by (simp add: failMatchFault_def)
next
  case MatchComplete
  then show ?thesis by (simp add: failMatch_def failMatchFault_def)
qed

text \<open>
  The example match in MakerSwapCast, both orders on the book with two active swaps each
  and the book behind the hook empty: the taker is charged with NoSwapAsTaker at the
  maker's swap time, the taker's order is left with one active swap and marked failed,
  the maker's order with one active swap and not failed.
\<close>

theorem C1_failMatch_fault_table_witness:
  "filter isInaction
     (trace (snd (failMatch 63900000100000000000 (exMatchSide True MakerSwapCast)
                    (exSwapper (exMatchSide True MakerSwapCast) exOrdersOnBook))))
     = [Inaction [8] NoSwapAsTaker (replicate 32 9) 100 0 [2]]
   \<and> orders (snd (failMatch 63900000100000000000 (exMatchSide True MakerSwapCast)
                     (exSwapper (exMatchSide True MakerSwapCast) exOrdersOnBook))) [2]
     = Some \<lparr>SwapCount = 1, OffBook = False, HasFailed = True\<rparr>
   \<and> orders (snd (failMatch 63900000100000000000 (exMatchSide True MakerSwapCast)
                     (exSwapper (exMatchSide True MakerSwapCast) exOrdersOnBook))) [1]
     = Some \<lparr>SwapCount = 1, OffBook = False, HasFailed = False\<rparr>"
  using C1_failMatch_fault_table
          [of "exMatchSide True MakerSwapCast"
              "exSwapper (exMatchSide True MakerSwapCast) exOrdersOnBook"
              63900000100000000000]
  by (simp add: revokedAgainst_def afterDecrement_def afterCancel_def Let_def exMatchSide_def
      exOrdersOnBook_def exMatch_def exSwapper_def exOrder_def newSwapStatus_def)

section \<open>The inaction sweeps\<close>

lemmas ex_defs = exAsset_def exMatch_def exSwapper_def exOrders_def exOrder_def newSwapStatus_def

text \<open>
  The block-based sweep does not select a match whose swap-confirmed time is the zero
  time.
\<close>

lemma block_based_zero_time_not_failed:
  "(Status m = MakerSwapCast \<longrightarrow> IsZero (swapConfTime (makerStatus m))) \<Longrightarrow>
   (Status m = TakerSwapCast \<longrightarrow> IsZero (swapConfTime (takerStatus m))) \<Longrightarrow>
   \<not> blockBasedFails bt now assetID m"
  by (cases "Status m") (auto simp: blockBasedFails_def tooOldBlockBased_def)

text \<open>
  C3 at the failing input: a registered match in MakerRedeemed whose maker's redeem time
  is the zero time, a broadcast timeout of one minute, and the event-based sweep run at a
  present-day clock reading. The sweep revokes the match: it charges the taker with
  NoRedeemAsTaker at the zero reference time and takes the match out of the registry.
  The closure tooOld of checkInactionEventBased has no zero-time test, the one of
  checkInactionBlockBased has it.
\<close>

theorem C3_event_sweep_revokes_zero_time:
  "fst (checkInactionEventBased False 63900000100000000000 63900000100000000000
          (exSwapper (exMatch MakerRedeemed (newSwapStatus 42 0) (newSwapStatus 0 42)) exOrders))
     = Returns ()
   \<and> matches (snd (checkInactionEventBased False 63900000100000000000 63900000100000000000
          (exSwapper (exMatch MakerRedeemed (newSwapStatus 42 0) (newSwapStatus 0 42)) exOrders)))
     = []
   \<and> filter isInaction
       (trace (snd (checkInactionEventBased False 63900000100000000000 63900000100000000000
          (exSwapper (exMatch MakerRedeemed (newSwapStatus 42 0) (newSwapStatus 0 42)) exOrders))))
     = [Inaction [8] NoRedeemAsTaker (replicate 32 9) 100 0 [2]]"
  by (simp add: ex_defs checkInactionEventBased_def eventBasedFails_def tooOldEventBased_def
      redeemSeenTime_def Sub_def maxDuration_def minDuration_def failMatch_def failMatchFault_def
      Let_def unbookHook_def emit_def swapFailure_def swapSuccess_def decrementActiveSwapCount_def
      canceled_def revoke_def unlockOrderCoins_def unlockOrderIDCoins_def deleteMatch_def
      deleteUserMatch_def UnixMilli_def)

section \<open>The step resolver\<close>

text \<open>What step has established when it returns a stepInformation.\<close>

lemma step_info:
  assumes "step b2q usr matchID s = Returns (Inr info)"
  shows "map_of (matches s) matchID = Some (siMatch info)
       \<and> siStep info = Status (trackers s (siMatch info))
       \<and> stepSwitch (Status (trackers s (siMatch info))) (Sell (Maker (trackers s (siMatch info))))
           = Some (saIsMaker (actor info), nextStep info, isBaseAsset info)
       \<and> saUser (actor info) = usr
       \<and> saSwapAsset (actor info)
           = (if isBaseAsset info then BaseAsset (Maker (trackers s (siMatch info)))
              else QuoteAsset (Maker (trackers s (siMatch info))))
       \<and> checkVal info
           = (if isBaseAsset info then Quantity (trackers s (siMatch info))
              else b2q (oRate (Maker (trackers s (siMatch info))))
                     (Quantity (trackers s (siMatch info))))
       \<and> map_of (coins s) (saSwapAsset (actor info)) = Some (siAsset info)"
proof -
  obtain p where p: "map_of (matches s) matchID = Some p"
    using assms by (cases "map_of (matches s) matchID") (simp_all add: step_def)
  obtain ma nx ib where sw: "stepSwitch (Status (trackers s p)) (Sell (Maker (trackers s p)))
      = Some (ma, nx, ib)"
    using assms p
    by (cases "stepSwitch (Status (trackers s p)) (Sell (Maker (trackers s p)))")
       (auto simp: step_def Let_def)
  let ?asset = "if ib then BaseAsset (Maker (trackers s p)) else QuoteAsset (Maker (trackers s p))"
  obtain a where a: "map_of (coins s) ?asset = Some a"
    using assms p sw
    by (cases "map_of (coins s) ?asset") (auto simp: step_def Let_def split: if_splits)
  show ?thesis
    using assms p sw a
    by (auto simp: step_def Let_def split: if_splits)
qed

lemma stepSwitch_onBase:
  "stepSwitch st sell = Some (ma, nx, ib) \<Longrightarrow>
     ib = stepOnBase st sell \<and> ma = (st = NewlyMatched \<or> st = TakerSwapCast)
     \<and> st \<noteq> MatchComplete"
  by (cases st) (auto simp: stepSwitch_def stepOnBase_def)

text \<open>
  MatchComplete is the next status of the taker's step only, and MakerRedeemed of the
  maker's.
\<close>

lemma stepSwitch_actor:
  "stepSwitch st sell = Some (ma, nx, ib) \<Longrightarrow>
     (nx = MatchComplete \<longrightarrow> \<not> ma \<and> st = MakerRedeemed)
     \<and> (nx = MakerRedeemed \<longrightarrow> ma \<and> st = TakerSwapCast)"
  by (cases st) (auto simp: stepSwitch_def)

text \<open>
  step does return a stepInformation for a registered match that is not complete, when
  the user is the party that acts next and the asset of the step is configured.
\<close>

lemma stepSwitch_defined:
  "st \<noteq> MatchComplete \<Longrightarrow> \<exists>ma nx ib. stepSwitch st sell = Some (ma, nx, ib)"
  by (cases st) (auto simp: stepSwitch_def)

lemma step_returns_on_active_match:
  assumes "map_of (matches s) matchID = Some p"
    and "stepSwitch (Status (trackers s p)) (Sell (Maker (trackers s p))) = Some (ma, nx, ib)"
    and "usr = oUser (if ma then Maker (trackers s p) else Taker (trackers s p))"
    and "map_of (coins s) (if ib then BaseAsset (Maker (trackers s p))
                           else QuoteAsset (Maker (trackers s p))) = Some a"
  shows "\<exists>info. step b2q usr matchID s = Returns (Inr info) \<and> siMatch info = p
           \<and> nextStep info = nx"
  using assms by (auto simp: step_def Let_def)

text \<open>
  C7. For every registered match in one of the four statuses before MatchComplete, step
  resolves the step for the user of the party that acts next (the maker in NewlyMatched
  and TakerSwapCast, the taker in MakerSwapCast and MakerRedeemed), provided the asset of
  the step is configured; and whenever step returns a stepInformation, the acting side,
  the acting asset and the expected amount depend on the status and on the maker's side
  only: the step is on the base asset exactly in the cases the claim lists, the actor's
  swap asset is the base asset then and the quote asset otherwise, and checkVal is the
  match quantity on the base asset and BaseToQuote(maker.Rate, Quantity) on the quote
  asset.
\<close>

theorem C7_step_asset_and_value:
  "(map_of (matches s) matchID = Some p
      \<and> Status (trackers s p) \<noteq> MatchComplete
      \<and> usr = oUser (if Status (trackers s p) = NewlyMatched \<or> Status (trackers s p) = TakerSwapCast
                      then Maker (trackers s p) else Taker (trackers s p))
      \<and> map_of (coins s)
           (if stepOnBase (Status (trackers s p)) (Sell (Maker (trackers s p)))
            then BaseAsset (Maker (trackers s p)) else QuoteAsset (Maker (trackers s p)))
          = Some a
     \<longrightarrow> (\<exists>info. step b2q usr matchID s = Returns (Inr info) \<and> siMatch info = p
             \<and> siAsset info = a))
   \<and> (step b2q usr matchID s = Returns (Inr info)
     \<longrightarrow> (let m = trackers s (siMatch info)
          in map_of (matches s) matchID = Some (siMatch info)
           \<and> Status m \<noteq> MatchComplete
           \<and> isBaseAsset info = stepOnBase (Status m) (Sell (Maker m))
           \<and> saIsMaker (actor info) = (Status m = NewlyMatched \<or> Status m = TakerSwapCast)
           \<and> saSwapAsset (actor info)
               = (if stepOnBase (Status m) (Sell (Maker m)) then BaseAsset (Maker m)
                  else QuoteAsset (Maker m))
           \<and> checkVal info
               = (if stepOnBase (Status m) (Sell (Maker m)) then Quantity m
                  else b2q (oRate (Maker m)) (Quantity m))))"
proof (intro conjI impI)
  assume h: "map_of (matches s) matchID = Some p
      \<and> Status (trackers s p) \<noteq> MatchComplete
      \<and> usr = oUser (if Status (trackers s p) = NewlyMatched \<or> Status (trackers s p) = TakerSwapCast
                      then Maker (trackers s p) else Taker (trackers s p))
      \<and> map_of (coins s)
           (if stepOnBase (Status (trackers s p)) (Sell (Maker (trackers s p)))
            then BaseAsset (Maker (trackers s p)) else QuoteAsset (Maker (trackers s p)))
          = Some a"
  obtain ma nx ib where
    sw: "stepSwitch (Status (trackers s p)) (Sell (Maker (trackers s p))) = Some (ma, nx, ib)"
    using h stepSwitch_defined by blast
  note ob = stepSwitch_onBase [OF sw]
  have u: "usr = oUser (if ma then Maker (trackers s p) else Taker (trackers s p))"
    using h ob by simp
  have c: "map_of (coins s) (if ib then BaseAsset (Maker (trackers s p))
                             else QuoteAsset (Maker (trackers s p))) = Some a"
    using h ob by simp
  obtain info where i: "step b2q usr matchID s = Returns (Inr info)" and ip: "siMatch info = p"
    using step_returns_on_active_match [OF _ sw u c, of matchID b2q] h by blast
  have "siAsset info = a"
    using step_info [OF i] ip sw c by auto
  then show "\<exists>info. step b2q usr matchID s = Returns (Inr info) \<and> siMatch info = p
      \<and> siAsset info = a"
    using i ip by blast
next
  assume r: "step b2q usr matchID s = Returns (Inr info)"
  show "(let m = trackers s (siMatch info)
          in map_of (matches s) matchID = Some (siMatch info)
           \<and> Status m \<noteq> MatchComplete
           \<and> isBaseAsset info = stepOnBase (Status m) (Sell (Maker m))
           \<and> saIsMaker (actor info) = (Status m = NewlyMatched \<or> Status m = TakerSwapCast)
           \<and> saSwapAsset (actor info)
               = (if stepOnBase (Status m) (Sell (Maker m)) then BaseAsset (Maker m)
                  else QuoteAsset (Maker m))
           \<and> checkVal info
               = (if stepOnBase (Status m) (Sell (Maker m)) then Quantity m
                  else b2q (oRate (Maker m)) (Quantity m)))"
    using step_info [OF r]
      stepSwitch_onBase [of "Status (trackers s (siMatch info))"
        "Sell (Maker (trackers s (siMatch info)))" "saIsMaker (actor info)" "nextStep info"
        "isBaseAsset info"]
    by (simp add: Let_def)
qed

text \<open>
  The example match with a selling and with a buying maker, in each of the four statuses,
  on the market of base asset 42 and quote asset 0 with quantity 100 and rate 150000: the
  party that acts, the asset of the step and the expected amount.
\<close>

theorem C7_step_asset_and_value_witness:
  "(\<exists>info. step (BaseToQuote exEnv) [7] (replicate 32 9)
              (exSwapper (exMatchSide True NewlyMatched) exOrders) = Returns (Inr info)
          \<and> isBaseAsset info \<and> saIsMaker (actor info) \<and> saSwapAsset (actor info) = 42
          \<and> checkVal info = 100)
   \<and> (\<exists>info. step (BaseToQuote exEnv) [8] (replicate 32 9)
              (exSwapper (exMatchSide True MakerSwapCast) exOrders) = Returns (Inr info)
          \<and> \<not> isBaseAsset info \<and> \<not> saIsMaker (actor info) \<and> saSwapAsset (actor info) = 0
          \<and> checkVal info = BaseToQuote exEnv 150000 100)
   \<and> (\<exists>info. step (BaseToQuote exEnv) [7] (replicate 32 9)
              (exSwapper (exMatchSide True TakerSwapCast) exOrders) = Returns (Inr info)
          \<and> \<not> isBaseAsset info \<and> saIsMaker (actor info) \<and> saSwapAsset (actor info) = 0
          \<and> checkVal info = BaseToQuote exEnv 150000 100)
   \<and> (\<exists>info. step (BaseToQuote exEnv) [8] (replicate 32 9)
              (exSwapper (exMatchSide True MakerRedeemed) exOrders) = Returns (Inr info)
          \<and> isBaseAsset info \<and> \<not> saIsMaker (actor info) \<and> saSwapAsset (actor info) = 42
          \<and> checkVal info = 100)
   \<and> (\<exists>info. step (BaseToQuote exEnv) [7] (replicate 32 9)
              (exSwapper (exMatchSide False NewlyMatched) exOrders) = Returns (Inr info)
          \<and> \<not> isBaseAsset info \<and> saIsMaker (actor info) \<and> saSwapAsset (actor info) = 0
          \<and> checkVal info = BaseToQuote exEnv 150000 100)
   \<and> (\<exists>info. step (BaseToQuote exEnv) [8] (replicate 32 9)
              (exSwapper (exMatchSide False MakerSwapCast) exOrders) = Returns (Inr info)
          \<and> isBaseAsset info \<and> \<not> saIsMaker (actor info) \<and> saSwapAsset (actor info) = 42
          \<and> checkVal info = 100)
   \<and> (\<exists>info. step (BaseToQuote exEnv) [7] (replicate 32 9)
              (exSwapper (exMatchSide False TakerSwapCast) exOrders) = Returns (Inr info)
          \<and> isBaseAsset info \<and> saIsMaker (actor info) \<and> saSwapAsset (actor info) = 42
          \<and> checkVal info = 100)
   \<and> (\<exists>info. step (BaseToQuote exEnv) [8] (replicate 32 9)
              (exSwapper (exMatchSide False MakerRedeemed) exOrders) = Returns (Inr info)
          \<and> \<not> isBaseAsset info \<and> \<not> saIsMaker (actor info) \<and> saSwapAsset (actor info) = 0
          \<and> checkVal info = BaseToQuote exEnv 150000 100)"
proof -
  have each: "\<exists>info. step (BaseToQuote exEnv) usr (replicate 32 9)
                 (exSwapper (exMatchSide sell st) exOrders) = Returns (Inr info)
        \<and> isBaseAsset info = stepOnBase st sell
        \<and> saIsMaker (actor info) = (st = NewlyMatched \<or> st = TakerSwapCast)
        \<and> saSwapAsset (actor info) = (if stepOnBase st sell then 42 else 0)
        \<and> checkVal info = (if stepOnBase st sell then 100 else BaseToQuote exEnv 150000 100)"
    if ne: "st \<noteq> MatchComplete"
      and us: "usr = (if st = NewlyMatched \<or> st = TakerSwapCast then [7] else [8])"
    for usr sell st
  proof -
    let ?s = "exSwapper (exMatchSide sell st) exOrders"
    let ?a = "if stepOnBase st sell then exAsset ''dcr'' else exAsset ''btc''"
    have h: "map_of (matches ?s) (replicate 32 9) = Some 0
      \<and> Status (trackers ?s 0) \<noteq> MatchComplete
      \<and> usr = oUser (if Status (trackers ?s 0) = NewlyMatched \<or> Status (trackers ?s 0) = TakerSwapCast
                      then Maker (trackers ?s 0) else Taker (trackers ?s 0))
      \<and> map_of (coins ?s)
           (if stepOnBase (Status (trackers ?s 0)) (Sell (Maker (trackers ?s 0)))
            then BaseAsset (Maker (trackers ?s 0)) else QuoteAsset (Maker (trackers ?s 0)))
          = Some ?a"
      using ne us by (simp add: exSwapper_def exMatchSide_def exMatch_def exOrder_def)
    obtain info where
      i: "step (BaseToQuote exEnv) usr (replicate 32 9) ?s = Returns (Inr info)"
      using C7_step_asset_and_value
              [of ?s "replicate 32 9" 0 usr ?a "BaseToQuote exEnv"] h
      by blast
    have "isBaseAsset info = stepOnBase st sell
        \<and> saIsMaker (actor info) = (st = NewlyMatched \<or> st = TakerSwapCast)
        \<and> saSwapAsset (actor info) = (if stepOnBase st sell then 42 else 0)
        \<and> checkVal info = (if stepOnBase st sell then 100 else BaseToQuote exEnv 150000 100)"
      using C7_step_asset_and_value
              [of ?s "replicate 32 9" 0 usr ?a "BaseToQuote exEnv" info] i
      by (simp add: Let_def exSwapper_def exMatchSide_def exMatch_def exOrder_def)
    then show ?thesis using i by blast
  qed
  show ?thesis
    using each [of NewlyMatched "[7]" True] each [of MakerSwapCast "[8]" True]
      each [of TakerSwapCast "[7]" True] each [of MakerRedeemed "[8]" True]
      each [of NewlyMatched "[7]" False] each [of MakerSwapCast "[8]" False]
      each [of TakerSwapCast "[7]" False] each [of MakerRedeemed "[8]" False]
    by (simp add: stepOnBase_def)
qed

section \<open>The init handler\<close>

lemma waiterExpiry_min:
  "waiterExpiry now tw lastEvent bt
     = (if lastEvent = 0 then now + tw else min (now + tw) (lastEvent + bt))"
  by (simp add: waiterExpiry_def Let_def IsZero_def After_def Add_def min_def)

text \<open>
  A payload that is the JSON value null leaves the params nil, and both handlers panic
  when they authenticate the user.
\<close>

lemma handlers_panic_on_nil_params:
  "fst (handleInit exEnv 120000000000 [7] (exMsg InitRoute [110, 117, 108, 108])
          (exSwapper (exMatchSide True NewlyMatched) exOrders))
     = Panics ''nil pointer dereference''
   \<and> fst (handleRedeem exEnv 120000000000 [7] (exMsg RedeemRoute [110, 117, 108, 108])
          (exSwapper (exMatchSide True TakerSwapCast) exOrders))
     = Panics ''nil pointer dereference''"
  by (simp add: handleInit_def handleRedeem_def exEnv_def exMsg_def exSwapper_def)

text \<open>
  C8, as the claim states it, fails: the taker's init for the example match in
  MakerSwapCast arrives while the maker's swap has not reached its confirmations
  (swap-confirmed time zero). handleInit accepts it and gives the waiter the expiry
  now + txWaitExpiration (two minutes here), not the minimum with
  lastEvent + broadcastTimeout, which would be one minute after the zero time.
\<close>

theorem C8_counterexample:
  "fst (handleInit exEnv 120000000000 [8] (exMsg InitRoute [4])
          (exSwapper (exMatch MakerSwapCast (newSwapStatus 42 0) (newSwapStatus 0 42)) exOrders))
     = Returns None
   \<and> map Expiration
       (latencyQ (snd (handleInit exEnv 120000000000 [8] (exMsg InitRoute [4])
          (exSwapper (exMatch MakerSwapCast (newSwapStatus 42 0) (newSwapStatus 0 42)) exOrders))))
     = [Add (Now exEnv) 120000000000]
   \<and> Add (Now exEnv) 120000000000
     \<noteq> min (Add (Now exEnv) 120000000000)
           (Add (swapConfTime (newSwapStatus 42 0)) 60000000000)"
  by (simp add: ex_defs exEnv_def exMsg_def handleInit_def step_def stepSwitch_def Let_def
      MatchIDSize_def setLiveWaiter_def waiterExpiry_def swapConfTime_def IsZero_def Add_def
      After_def InitRoute_def)

text \<open>
  C8, amended. When handleInit accepts an init message (returns nil), the match is
  registered and in NewlyMatched or MakerSwapCast, exactly one waiter is put on the
  latency queue, and its expiry is min(now + txWaitExpiration, lastEvent +
  broadcastTimeout) when lastEvent is not the zero time, and now + txWaitExpiration when
  it is; lastEvent is the maker's swap-confirmed time in MakerSwapCast and the match's
  first-seen time in NewlyMatched.
\<close>

theorem C8_init_waiter_expiry:
  assumes "handleInit env tw usr msg s = (Returns None, s')"
  shows "\<exists>params p w.
           unmarshalInit env (Payload msg) = Decoded params
         \<and> map_of (matches s) (iMatchID params) = Some p
         \<and> (Status (trackers s p) = NewlyMatched \<or> Status (trackers s p) = MakerSwapCast)
         \<and> latencyQ s' = latencyQ s @ [w]
         \<and> Expiration w
             = (let lastEvent = (if Status (trackers s p) = MakerSwapCast
                                 then swapConfirmed (makerStatus (trackers s p))
                                 else time (trackers s p))
                in if lastEvent = 0 then Now env + tw
                   else min (Now env + tw) (lastEvent + bTimeout s))"
proof -
  obtain params where pa: "unmarshalInit env (Payload msg) = Decoded params"
    using assms by (cases "unmarshalInit env (Payload msg)")
      (auto simp: handleInit_def split: if_splits)
  obtain info where st: "step (BaseToQuote env) usr (iMatchID params) s = Returns (Inr info)"
    using assms pa
    by (auto simp: handleInit_def split: if_splits exec.splits sum.splits)
  note si = step_info [OF st]
  obtain coinStr where cs: "ValidateCoinID (siAsset info) (iCoinID params) = Some coinStr"
    using assms pa st
    by (cases "ValidateCoinID (siAsset info) (iCoinID params)")
       (auto simp: handleInit_def Let_def split: if_splits)
  show ?thesis
    using assms pa st cs si
    by (auto simp: handleInit_def Let_def setLiveWaiter_def waiterExpiry_min swapConfTime_def
        split: if_splits)
qed

text \<open>
  The maker's init for the example match in NewlyMatched, first seen 99 seconds before
  the clock reading: the waiter expires one minute after the match was first seen.
\<close>

theorem C8_init_waiter_expiry_witness:
  "fst (handleInit exEnv 120000000000 [7] (exMsg InitRoute [4])
          (exSwapper (exMatch NewlyMatched (newSwapStatus 42 0) (newSwapStatus 0 42)) exOrders))
     = Returns None
   \<and> map Expiration
       (latencyQ (snd (handleInit exEnv 120000000000 [7] (exMsg InitRoute [4])
          (exSwapper (exMatch NewlyMatched (newSwapStatus 42 0) (newSwapStatus 0 42)) exOrders))))
     = [63900000061000000000]"
proof -
  let ?s = "exSwapper (exMatch NewlyMatched (newSwapStatus 42 0) (newSwapStatus 0 42)) exOrders"
  let ?r = "handleInit exEnv 120000000000 [7] (exMsg InitRoute [4]) ?s"
  have f: "fst ?r = Returns None"
    by (simp add: ex_defs exEnv_def exMsg_def handleInit_def step_def stepSwitch_def Let_def
        MatchIDSize_def)
  then have h: "?r = (Returns None, snd ?r)"
    by (metis prod.collapse)
  obtain params p w where
    pa: "unmarshalInit exEnv (Payload (exMsg InitRoute [4])) = Decoded params"
    and q: "latencyQ (snd ?r) = latencyQ ?s @ [w]"
    and e: "Expiration w
             = (let lastEvent = (if Status (trackers ?s p) = MakerSwapCast
                                 then swapConfirmed (makerStatus (trackers ?s p))
                                 else time (trackers ?s p))
                in if lastEvent = 0 then Now exEnv + 120000000000
                   else min (Now exEnv + 120000000000) (lastEvent + bTimeout ?s))"
    using C8_init_waiter_expiry [OF h] by blast
  have "Expiration w = 63900000061000000000"
    using e by (simp add: ex_defs exEnv_def)
  then show ?thesis using f q by (simp add: ex_defs)
qed

section \<open>processInit and processRedeem\<close>




text \<open>
  A redemption that the backend fails to resolve, for a reason other than a coin not yet
  found, is answered with RedemptionError.
\<close>

lemma processRedeem_redemption_error:
  assumes "swap (statusOf (counterParty stepInfo) (trackers s (siMatch stepInfo))) = Some cpSwap"
    and "ValidateSecret (siAsset stepInfo) (rSecret params) (cRedeemScript cpSwap)"
    and "RedemptionOf (siAsset stepInfo) (rCoinID params) (cID cpSwap) = Inl OtherBackendError"
  shows "processRedeem env msg params stepInfo s
           = (Returns DontTryAgain,
              respondError (msgID msg) (saUser (actor stepInfo)) RedemptionError
                ''redemption error'' s)"
  using assms by (simp add: processRedeem_def Let_def)




section \<open>Completion of a match\<close>

lemma updTracker_frame:
  "matches (updTracker p f s) = matches s \<and> orders (updTracker p f s) = orders s
   \<and> trace (updTracker p f s) = trace s \<and> userMatches (updTracker p f s) = userMatches s
   \<and> trackers (updTracker p f s) p = f (trackers s p)"
  by (simp add: updTracker_def)

lemma setStatusOf_fields:
  "mID (setStatusOf a ss m) = mID m \<and> Maker (setStatusOf a ss m) = Maker m
   \<and> Taker (setStatusOf a ss m) = Taker m \<and> Status (setStatusOf a ss m) = Status m"
  by (simp add: setStatusOf_def)

lemma respondSuccess_frame:
  "trackers (respondSuccess i u mid s) = trackers s \<and> matches (respondSuccess i u mid s) = matches s
   \<and> userMatches (respondSuccess i u mid s) = userMatches s
   \<and> orders (respondSuccess i u mid s) = orders s
   \<and> trace (respondSuccess i u mid s) = trace s @ [RespondSuccess i u mid]"
  by (simp add: respondSuccess_def emit_def)

lemma emit_frame:
  "trackers (emit evs s) = trackers s \<and> matches (emit evs s) = matches s
   \<and> userMatches (emit evs s) = userMatches s"
  by (simp add: emit_def)

text \<open>
  What deleteMatch does to the two indexes: the registry loses the entry of the match and
  no other, and neither the maker's nor the taker's index holds the match afterwards.
\<close>

lemma deleteUserMatch_at:
  "(case deleteUserMatch usr mid um usr of None \<Rightarrow> False | Some ms \<Rightarrow> map_of ms mid \<noteq> None)
     = False"
  by (cases "um usr") (auto simp: deleteUserMatch_def Let_def delete_conv)

lemma deleteUserMatch_other:
  "u \<noteq> usr \<Longrightarrow> deleteUserMatch usr mid um u = um u"
  by (cases "um usr") (auto simp: deleteUserMatch_def Let_def)

lemma deleteMatch_effect:
  "orders (deleteMatch p s) = orders s \<and> trace (deleteMatch p s) = trace s
   \<and> trackers (deleteMatch p s) = trackers s
   \<and> map_of (matches (deleteMatch p s)) = (map_of (matches s))(mID (trackers s p) := None)
   \<and> \<not> inUserIndex (deleteMatch p s) (oUser (Maker (trackers s p))) (mID (trackers s p))
   \<and> \<not> inUserIndex (deleteMatch p s) (oUser (Taker (trackers s p))) (mID (trackers s p))"
proof -
  let ?mk = "oUser (Maker (trackers s p))" and ?tk = "oUser (Taker (trackers s p))"
  let ?mid = "mID (trackers s p)"
  have m: "map_of (matches (deleteMatch p s)) = (map_of (matches s))(?mid := None)"
    by (rule ext) (simp add: deleteMatch_def Let_def delete_conv)
  have u: "\<not> inUserIndex (deleteMatch p s) ?mk ?mid \<and> \<not> inUserIndex (deleteMatch p s) ?tk ?mid"
  proof (cases "?mk = ?tk")
    case True
    then show ?thesis
      using deleteUserMatch_at [where usr = ?tk and mid = ?mid and um = "userMatches s"]
      by (simp add: inUserIndex_def deleteMatch_def Let_def)
  next
    case False
    then show ?thesis
      using deleteUserMatch_at
              [where usr = ?tk and mid = ?mid and um = "deleteUserMatch ?mk ?mid (userMatches s)"]
        deleteUserMatch_at [where usr = ?mk and mid = ?mid and um = "userMatches s"]
        deleteUserMatch_other
              [where u = ?mk and usr = ?tk and mid = ?mid
                 and um = "deleteUserMatch ?mk ?mid (userMatches s)"]
      by (simp add: inUserIndex_def deleteMatch_def Let_def)
  qed
  show ?thesis using m u by (simp add: deleteMatch_def Let_def)
qed

text \<open>
  C6, as the claim states it, fails: the taker's redeem for the example match in
  MakerRedeemed, with both orders off-book and one active swap each. handleRedeem starts
  the waiter and its first try completes the match: the registry is empty afterwards and
  the taker's order \<open>[2]\<close> has left the order tracker, but the maker's order \<open>[1]\<close>
  still has its active swap count of 1. The maker's order is decremented by the maker's
  own redeem, not by the taker's.
\<close>

theorem C6_counterexample:
  "map (\<lambda>w. (fst (tryFunc exEnv w
                 (snd (handleRedeem exEnv 120000000000 [8] (exMsg RedeemRoute [4])
                    (exSwapper (exMatch MakerRedeemed
                        ((newSwapStatus 42 0)\<lparr>swap := Some (exContract [5])\<rparr>)
                        (newSwapStatus 0 42)) exOrders)))),
               matches (snd (tryFunc exEnv w
                 (snd (handleRedeem exEnv 120000000000 [8] (exMsg RedeemRoute [4])
                    (exSwapper (exMatch MakerRedeemed
                        ((newSwapStatus 42 0)\<lparr>swap := Some (exContract [5])\<rparr>)
                        (newSwapStatus 0 42)) exOrders))))),
               orders (snd (tryFunc exEnv w
                 (snd (handleRedeem exEnv 120000000000 [8] (exMsg RedeemRoute [4])
                    (exSwapper (exMatch MakerRedeemed
                        ((newSwapStatus 42 0)\<lparr>swap := Some (exContract [5])\<rparr>)
                        (newSwapStatus 0 42)) exOrders))))) [2],
               orders (snd (tryFunc exEnv w
                 (snd (handleRedeem exEnv 120000000000 [8] (exMsg RedeemRoute [4])
                    (exSwapper (exMatch MakerRedeemed
                        ((newSwapStatus 42 0)\<lparr>swap := Some (exContract [5])\<rparr>)
                        (newSwapStatus 0 42)) exOrders))))) [1]))
       (latencyQ (snd (handleRedeem exEnv 120000000000 [8] (exMsg RedeemRoute [4])
                    (exSwapper (exMatch MakerRedeemed
                        ((newSwapStatus 42 0)\<lparr>swap := Some (exContract [5])\<rparr>)
                        (newSwapStatus 0 42)) exOrders))))
   = [(Returns DontTryAgain, [], None,
       Some \<lparr>SwapCount = 1, OffBook = True, HasFailed = False\<rparr>)]"
  by (simp add: ex_defs exEnv_def exMsg_def exContract_def handleRedeem_def step_def stepSwitch_def
      Let_def MatchIDSize_def setLiveWaiter_def rmLiveWaiter_def waiterExpiry_def swapConfTime_def
      redeemSeenTime_def IsZero_def Add_def After_def tryFunc_def processRedeem_def statusOf_def
      setStatusOf_def updTracker_def deleteMatch_def deleteUserMatch_def respondSuccess_def
      respondError_def emit_def swapSuccess_def decrementActiveSwapCount_def unixMsNow_def
      UnixMilli_def Sub_def maxDuration_def minDuration_def)

text \<open>
  C6, amended. When processRedeem accepts a redeem of a registered match (the secret is
  valid and the redemption resolves), the match takes the next status of the step and
  the active-swap counter of the acting party's order, and of no other order, is
  decremented (failed = false); when the tracker reports that order complete, the
  completion is recorded with the AuthManager and its time in the storage, and otherwise
  neither is. When the next status is the final MatchComplete (the taker's redeem, which
  decrements the taker's order), the match is deleted from the registry and from the
  index of the maker's and of the taker's user. Otherwise (the maker's redeem, from
  TakerSwapCast to MakerRedeemed, which decrements the maker's order) the registry and the
  user index are unchanged. A step that step resolved has MatchComplete as its next
  status only for the taker in MakerRedeemed, and MakerRedeemed only for the maker in
  TakerSwapCast.
\<close>

theorem C6_redeem_decrements_actors_order:
  assumes cp: "swap (statusOf (counterParty stepInfo) (trackers s (siMatch stepInfo))) = Some cpSwap"
    and vs: "ValidateSecret (siAsset stepInfo) (rSecret params) (cRedeemScript cpSwap)"
    and rd: "RedemptionOf (siAsset stepInfo) (rCoinID params) (cID cpSwap) = Inr redemp"
    and rg: "map_of (matches s) (mID (trackers s (siMatch stepInfo))) = Some q"
  shows "(let m = trackers s (siMatch stepInfo);
              s' = snd (processRedeem env msg params stepInfo s);
              ord = (if saIsMaker (actor stepInfo) then Maker m else Taker m)
          in fst (processRedeem env msg params stepInfo s) = Returns DontTryAgain
           \<and> Status (trackers s' (siMatch stepInfo)) = nextStep stepInfo
           \<and> (if nextStep stepInfo = MatchComplete
               then map_of (matches s') = (map_of (matches s))(mID m := None)
                  \<and> \<not> inUserIndex s' (oUser (Maker m)) (mID m)
                  \<and> \<not> inUserIndex s' (oUser (Taker m)) (mID m)
               else matches s' = matches s \<and> userMatches s' = userMatches s)
           \<and> orders s' = (orders s)(oID ord := afterDecrement False (orders s (oID ord)))
           \<and> filter isCompletion (drop (length (trace s)) (trace s'))
               = (if reportsComplete (orders s (oID ord))
                  then [RecordCompletedOrder (saUser (actor stepInfo)) (oID ord) (unixMsNow env),
                        SetOrderCompleteTime (oID ord) (UnixMilli (unixMsNow env))]
                  else []))
       \<and> (step b2q usr matchID s0 = Returns (Inr stepInfo) \<longrightarrow>
            (nextStep stepInfo = MatchComplete \<longrightarrow>
               \<not> saIsMaker (actor stepInfo)
               \<and> Status (trackers s0 (siMatch stepInfo)) = MakerRedeemed)
          \<and> (nextStep stepInfo = MakerRedeemed \<longrightarrow>
               saIsMaker (actor stepInfo)
               \<and> Status (trackers s0 (siMatch stepInfo)) = TakerSwapCast))"
proof -
  define p where "p = siMatch stepInfo"
  define match where "match = trackers s p"
  define act where "act = actor stepInfo"
  define cpa where "cpa = counterParty stepInfo"
  define nx where "nx = nextStep stepInfo"
  define redeemT where "redeemT = unixMsNow env"
  define ord where "ord = (if saIsMaker act then Maker match else Taker match)"
  define s1 where "s1 = updTracker p
      (\<lambda>t. setStatusOf act ((statusOf act t)\<lparr>redemption := Some redemp, redeemTime := redeemT\<rparr>) t) s"
  define s2 where "s2 = updTracker p (\<lambda>t. t\<lparr>Status := nx\<rparr>) s1"
  define s3 where "s3 = (if nx = MatchComplete then deleteMatch p s2 else s2)"
  define s4 where "s4 =
     (if saUser act \<noteq> saUser cpa \<or> nx = MatchComplete
      then emit [SwapSuccess (saUser act) (mID match) (Quantity match) redeemT] s3 else s3)"
  define s5 where "s5 = emit [SaveRedeem (saIsMaker act) (mID match) (rCoinID params)
      (if saIsMaker act then Some (rSecret params) else None) (UnixMilli redeemT)] s4"
  define s6 where "s6 = respondSuccess (msgID msg) (saUser act) (mID match) s5"
  define dn where "dn = fst (swapSuccess ord (orders s6))"
  define om where "om = snd (swapSuccess ord (orders s6))"
  define s7 where "s7 = s6\<lparr>orders := om\<rparr>"
  define s8 where "s8 =
     (if dn then emit [RecordCompletedOrder (saUser act) (oID ord) redeemT,
                        SetOrderCompleteTime (oID ord) (UnixMilli redeemT)] s7
      else s7)"
  have pr: "processRedeem env msg params stepInfo s
      = (if dn \<and> setOrderCompleteTimeErr env = Some ErrGeneralFailure
         then (Returns DontTryAgain,
               respondError (msgID msg) (saUser act) UnknownMarketError ''internal server error'' s8)
         else if \<not> saIsMaker act then (Returns DontTryAgain, s8)
         else if newRequestErr env then (Returns DontTryAgain, s8)
         else (Returns DontTryAgain,
               emit [RedemptionRequest (saUser cpa) (oID (saOrder cpa)) (mID match)
                       (UnixMilli redeemT) (rCoinID params) (rSecret params)
                       (Sub (Add redeemT (bTimeout s8)) (Now env))] s8))"
    using cp vs rd rg
    unfolding processRedeem_def s8_def s7_def om_def dn_def s6_def s5_def s4_def s3_def s2_def
      s1_def ord_def redeemT_def nx_def cpa_def act_def match_def p_def
    by (simp only: Let_def option.case sum.case if_True if_False case_prod_beta fst_conv snd_conv
        simp_thms refl)
  let ?s' = "snd (processRedeem env msg params stepInfo s)"
  have fin: "fst (processRedeem env msg params stepInfo s) = Returns DontTryAgain
      \<and> orders ?s' = orders s8 \<and> matches ?s' = matches s8 \<and> userMatches ?s' = userMatches s8
      \<and> trackers ?s' = trackers s8
      \<and> (\<exists>ex. trace ?s' = trace s8 @ ex \<and> filter isCompletion ex = [])"
    by (simp add: pr respondError_def emit_def)
  have tr2: "trackers s2 p = (setStatusOf act ((statusOf act match)\<lparr>redemption := Some redemp,
                 redeemTime := redeemT\<rparr>) match)\<lparr>Status := nx\<rparr>"
    by (simp add: s2_def s1_def updTracker_def match_def)
  have f2: "mID (trackers s2 p) = mID match \<and> Maker (trackers s2 p) = Maker match
      \<and> Taker (trackers s2 p) = Taker match \<and> Status (trackers s2 p) = nx"
    by (simp add: tr2 setStatusOf_fields)
  have i2: "matches s2 = matches s \<and> userMatches s2 = userMatches s \<and> orders s2 = orders s
      \<and> trace s2 = trace s"
    by (simp add: s2_def s1_def updTracker_frame)
  have i3: "orders s3 = orders s \<and> trace s3 = trace s \<and> trackers s3 = trackers s2"
    using deleteMatch_effect [of p s2] by (simp add: s3_def i2)
  have r3: "if nx = MatchComplete
            then map_of (matches s3) = (map_of (matches s))(mID match := None)
               \<and> \<not> inUserIndex s3 (oUser (Maker match)) (mID match)
               \<and> \<not> inUserIndex s3 (oUser (Taker match)) (mID match)
            else matches s3 = matches s \<and> userMatches s3 = userMatches s"
    using deleteMatch_effect [of p s2] by (simp add: s3_def i2 f2)
  have i6: "orders s6 = orders s \<and> matches s6 = matches s3 \<and> userMatches s6 = userMatches s3
      \<and> trackers s6 = trackers s2
      \<and> (\<exists>ex. trace s6 = trace s @ ex \<and> filter isCompletion ex = [])"
    by (simp add: s6_def s5_def s4_def respondSuccess_frame emit_frame i3)
  have dnr: "dn = reportsComplete (orders s (oID ord))"
    by (simp add: dn_def swapSuccess_def dec_false_reports i6)
  have omr: "om = (orders s)(oID ord := afterDecrement False (orders s (oID ord)))"
    by (simp add: om_def swapSuccess_def dec_stores i6)
  have i8: "orders s8 = om \<and> matches s8 = matches s6 \<and> userMatches s8 = userMatches s6
      \<and> trackers s8 = trackers s6
      \<and> trace s8 = trace s6 @ (if dn then [RecordCompletedOrder (saUser act) (oID ord) redeemT,
                        SetOrderCompleteTime (oID ord) (UnixMilli redeemT)] else [])"
    by (simp add: s8_def s7_def emit_def)
  obtain e6 where e6: "trace s6 = trace s @ e6" "filter isCompletion e6 = []"
    using i6 by blast
  obtain e9 where e9: "trace ?s' = trace s8 @ e9" "filter isCompletion e9 = []"
    using fin by blast
  have tc: "filter isCompletion (drop (length (trace s)) (trace ?s'))
      = (if dn then [RecordCompletedOrder (saUser act) (oID ord) redeemT,
                     SetOrderCompleteTime (oID ord) (UnixMilli redeemT)] else [])"
    using i8 by (simp add: e9 e6)
  have ui: "inUserIndex ?s' = inUserIndex s3"
    by (rule ext, rule ext) (simp add: inUserIndex_def fin i8 i6)
  have st: "Status (trackers ?s' p) = nx"
    by (simp add: fin i8 i6 f2)
  have rs: "if nx = MatchComplete
            then map_of (matches ?s') = (map_of (matches s))(mID match := None)
               \<and> \<not> inUserIndex ?s' (oUser (Maker match)) (mID match)
               \<and> \<not> inUserIndex ?s' (oUser (Taker match)) (mID match)
            else matches ?s' = matches s \<and> userMatches ?s' = userMatches s"
    using r3 by (simp add: ui fin i8 i6)
  have os: "orders ?s' = (orders s)(oID ord := afterDecrement False (orders s (oID ord)))"
    by (simp add: fin i8 omr)
  have tc': "filter isCompletion (drop (length (trace s)) (trace ?s'))
      = (if reportsComplete (orders s (oID ord))
         then [RecordCompletedOrder (saUser act) (oID ord) redeemT,
               SetOrderCompleteTime (oID ord) (UnixMilli redeemT)] else [])"
    using tc dnr by simp
  have f1: "fst (processRedeem env msg params stepInfo s) = Returns DontTryAgain"
    using fin by blast
  have sa: "step b2q usr matchID s0 = Returns (Inr stepInfo) \<longrightarrow>
            (nextStep stepInfo = MatchComplete \<longrightarrow>
               \<not> saIsMaker (actor stepInfo)
               \<and> Status (trackers s0 (siMatch stepInfo)) = MakerRedeemed)
          \<and> (nextStep stepInfo = MakerRedeemed \<longrightarrow>
               saIsMaker (actor stepInfo)
               \<and> Status (trackers s0 (siMatch stepInfo)) = TakerSwapCast)"
  proof
    assume a: "step b2q usr matchID s0 = Returns (Inr stepInfo)"
    have "stepSwitch (Status (trackers s0 (siMatch stepInfo)))
            (Sell (Maker (trackers s0 (siMatch stepInfo))))
          = Some (saIsMaker (actor stepInfo), nextStep stepInfo, isBaseAsset stepInfo)"
      using step_info [OF a] by blast
    then show "(nextStep stepInfo = MatchComplete \<longrightarrow>
               \<not> saIsMaker (actor stepInfo)
               \<and> Status (trackers s0 (siMatch stepInfo)) = MakerRedeemed)
          \<and> (nextStep stepInfo = MakerRedeemed \<longrightarrow>
               saIsMaker (actor stepInfo)
               \<and> Status (trackers s0 (siMatch stepInfo)) = TakerSwapCast)"
      by (rule stepSwitch_actor)
  qed
  show ?thesis
    using f1 st rs os tc' sa
    unfolding Let_def p_def match_def act_def nx_def ord_def redeemT_def
    by blast
qed

text \<open>
  The taker's redeem of the counterexample above, which completes the match and takes the
  taker's order \<open>[2]\<close> out of the tracker; and the maker's redeem of the example match
  in TakerSwapCast, which leaves the match registered in MakerRedeemed and takes the
  maker's order \<open>[1]\<close> out of the tracker while the taker's order keeps its active swap.
\<close>

theorem C6_redeem_decrements_actors_order_witness:
  "\<exists>ti mi.
      step (BaseToQuote exEnv) [8] (replicate 32 9)
        (exSwapper (exMatch MakerRedeemed
           ((newSwapStatus 42 0)\<lparr>swap := Some (exContract [5])\<rparr>) (newSwapStatus 0 42)) exOrders)
        = Returns (Inr ti)
    \<and> nextStep ti = MatchComplete \<and> \<not> saIsMaker (actor ti)
    \<and> map_of (matches (snd (processRedeem exEnv (exMsg RedeemRoute [4])
                \<lparr>rOrderID = [2], rMatchID = replicate 32 9, rCoinID = [4], rSecret = [5]\<rparr> ti
                (exSwapper (exMatch MakerRedeemed
                   ((newSwapStatus 42 0)\<lparr>swap := Some (exContract [5])\<rparr>) (newSwapStatus 0 42))
                   exOrders)))) (replicate 32 9) = None
    \<and> \<not> inUserIndex (snd (processRedeem exEnv (exMsg RedeemRoute [4])
                \<lparr>rOrderID = [2], rMatchID = replicate 32 9, rCoinID = [4], rSecret = [5]\<rparr> ti
                (exSwapper (exMatch MakerRedeemed
                   ((newSwapStatus 42 0)\<lparr>swap := Some (exContract [5])\<rparr>) (newSwapStatus 0 42))
                   exOrders))) [7] (replicate 32 9)
    \<and> orders (snd (processRedeem exEnv (exMsg RedeemRoute [4])
                \<lparr>rOrderID = [2], rMatchID = replicate 32 9, rCoinID = [4], rSecret = [5]\<rparr> ti
                (exSwapper (exMatch MakerRedeemed
                   ((newSwapStatus 42 0)\<lparr>swap := Some (exContract [5])\<rparr>) (newSwapStatus 0 42))
                   exOrders))) [2] = None
    \<and> orders (snd (processRedeem exEnv (exMsg RedeemRoute [4])
                \<lparr>rOrderID = [2], rMatchID = replicate 32 9, rCoinID = [4], rSecret = [5]\<rparr> ti
                (exSwapper (exMatch MakerRedeemed
                   ((newSwapStatus 42 0)\<lparr>swap := Some (exContract [5])\<rparr>) (newSwapStatus 0 42))
                   exOrders))) [1]
        = Some \<lparr>SwapCount = 1, OffBook = True, HasFailed = False\<rparr>
    \<and> step (BaseToQuote exEnv) [7] (replicate 32 9)
        (exSwapper (exMatch TakerSwapCast (newSwapStatus 42 0)
           ((newSwapStatus 0 42)\<lparr>swap := Some (exContract [5])\<rparr>)) exOrders)
        = Returns (Inr mi)
    \<and> nextStep mi = MakerRedeemed \<and> saIsMaker (actor mi)
    \<and> matches (snd (processRedeem exEnv (exMsg RedeemRoute [4])
                \<lparr>rOrderID = [1], rMatchID = replicate 32 9, rCoinID = [4], rSecret = [5]\<rparr> mi
                (exSwapper (exMatch TakerSwapCast (newSwapStatus 42 0)
                   ((newSwapStatus 0 42)\<lparr>swap := Some (exContract [5])\<rparr>)) exOrders)))
        = [(replicate 32 9, 0)]
    \<and> orders (snd (processRedeem exEnv (exMsg RedeemRoute [4])
                \<lparr>rOrderID = [1], rMatchID = replicate 32 9, rCoinID = [4], rSecret = [5]\<rparr> mi
                (exSwapper (exMatch TakerSwapCast (newSwapStatus 42 0)
                   ((newSwapStatus 0 42)\<lparr>swap := Some (exContract [5])\<rparr>)) exOrders))) [1]
        = None
    \<and> orders (snd (processRedeem exEnv (exMsg RedeemRoute [4])
                \<lparr>rOrderID = [1], rMatchID = replicate 32 9, rCoinID = [4], rSecret = [5]\<rparr> mi
                (exSwapper (exMatch TakerSwapCast (newSwapStatus 42 0)
                   ((newSwapStatus 0 42)\<lparr>swap := Some (exContract [5])\<rparr>)) exOrders))) [2]
        = Some \<lparr>SwapCount = 1, OffBook = True, HasFailed = False\<rparr>"
proof -
  let ?st = "exSwapper (exMatch MakerRedeemed
              ((newSwapStatus 42 0)\<lparr>swap := Some (exContract [5])\<rparr>) (newSwapStatus 0 42)) exOrders"
  let ?sm = "exSwapper (exMatch TakerSwapCast (newSwapStatus 42 0)
              ((newSwapStatus 0 42)\<lparr>swap := Some (exContract [5])\<rparr>)) exOrders"
  let ?tp = "\<lparr>rOrderID = [2], rMatchID = replicate 32 9, rCoinID = [4], rSecret = [5]\<rparr>"
  let ?mp = "\<lparr>rOrderID = [1], rMatchID = replicate 32 9, rCoinID = [4], rSecret = [5]\<rparr>"
  have "\<exists>ti. step (BaseToQuote exEnv) [8] (replicate 32 9) ?st = Returns (Inr ti)"
    by (simp add: ex_defs step_def stepSwitch_def Let_def)
  then obtain ti where t: "step (BaseToQuote exEnv) [8] (replicate 32 9) ?st = Returns (Inr ti)"
    by blast
  have "\<exists>mi. step (BaseToQuote exEnv) [7] (replicate 32 9) ?sm = Returns (Inr mi)"
    by (simp add: ex_defs step_def stepSwitch_def Let_def)
  then obtain mi where m: "step (BaseToQuote exEnv) [7] (replicate 32 9) ?sm = Returns (Inr mi)"
    by blast
  have t1: "swap (statusOf (counterParty ti) (trackers ?st (siMatch ti))) = Some (exContract [5])"
    using t by (auto simp: ex_defs step_def stepSwitch_def Let_def statusOf_def)
  have t2: "ValidateSecret (siAsset ti) (rSecret ?tp) (cRedeemScript (exContract [5]))"
    using t by (auto simp: ex_defs step_def stepSwitch_def Let_def exContract_def)
  have t3: "RedemptionOf (siAsset ti) (rCoinID ?tp) (cID (exContract [5])) = Inr [4]"
    using t by (auto simp: ex_defs step_def stepSwitch_def Let_def exContract_def)
  have t4: "map_of (matches ?st) (mID (trackers ?st (siMatch ti))) = Some 0"
    by (simp add: ex_defs)
  have t5: "nextStep ti = MatchComplete \<and> \<not> saIsMaker (actor ti)"
    using t by (auto simp: ex_defs step_def stepSwitch_def Let_def)
  have m1: "swap (statusOf (counterParty mi) (trackers ?sm (siMatch mi))) = Some (exContract [5])"
    using m by (auto simp: ex_defs step_def stepSwitch_def Let_def statusOf_def)
  have m2: "ValidateSecret (siAsset mi) (rSecret ?mp) (cRedeemScript (exContract [5]))"
    using m by (auto simp: ex_defs step_def stepSwitch_def Let_def exContract_def)
  have m3: "RedemptionOf (siAsset mi) (rCoinID ?mp) (cID (exContract [5])) = Inr [4]"
    using m by (auto simp: ex_defs step_def stepSwitch_def Let_def exContract_def)
  have m4: "map_of (matches ?sm) (mID (trackers ?sm (siMatch mi))) = Some 0"
    by (simp add: ex_defs)
  have m5: "nextStep mi = MakerRedeemed \<and> saIsMaker (actor mi)"
    using m by (auto simp: ex_defs step_def stepSwitch_def Let_def)
  have tt: "map_of (matches (snd (processRedeem exEnv (exMsg RedeemRoute [4]) ?tp ti ?st)))
              (replicate 32 9) = None
      \<and> \<not> inUserIndex (snd (processRedeem exEnv (exMsg RedeemRoute [4]) ?tp ti ?st)) [7]
            (replicate 32 9)
      \<and> orders (snd (processRedeem exEnv (exMsg RedeemRoute [4]) ?tp ti ?st)) [2] = None
      \<and> orders (snd (processRedeem exEnv (exMsg RedeemRoute [4]) ?tp ti ?st)) [1]
          = Some \<lparr>SwapCount = 1, OffBook = True, HasFailed = False\<rparr>"
    using C6_redeem_decrements_actors_order
            [OF t1 t2 t3 t4, where env = exEnv and msg = "exMsg RedeemRoute [4]"] t5
    by (simp add: Let_def afterDecrement_def ex_defs)
  have mm: "matches (snd (processRedeem exEnv (exMsg RedeemRoute [4]) ?mp mi ?sm))
          = [(replicate 32 9, 0)]
      \<and> orders (snd (processRedeem exEnv (exMsg RedeemRoute [4]) ?mp mi ?sm)) [1] = None
      \<and> orders (snd (processRedeem exEnv (exMsg RedeemRoute [4]) ?mp mi ?sm)) [2]
          = Some \<lparr>SwapCount = 1, OffBook = True, HasFailed = False\<rparr>"
    using C6_redeem_decrements_actors_order
            [OF m1 m2 m3 m4, where env = exEnv and msg = "exMsg RedeemRoute [4]"] m5
    by (simp add: Let_def afterDecrement_def ex_defs)
  show ?thesis
    using t m t5 m5 tt mm by blast
qed

section \<open>The constructor\<close>

text \<open>
  NewSwapper either stops before the Swapper is built, leaving txWaitExpiration as it was
  and making no call; or it has passed the checks of the data folder and of the fee
  rates, and txWaitExpiration is the smaller of its old value and the broadcast timeout.
\<close>

lemma NewSwapper_cases:
  "NewSwapper cfg fs env tw = (r, tw', evs) \<Longrightarrow>
     (tw' = tw \<and> evs = [] \<and> (\<forall>s. r \<noteq> Returns (Inr s)))
   \<or> (tw' = (if BroadcastTimeout cfg < tw then BroadcastTimeout cfg else tw)
       \<and> find (\<lambda>(aid, a). MaxFeeRate a = 0) (Assets cfg) = None
       \<and> statDataDir fs = StatOK True)"
  by (auto simp: NewSwapper_def Let_def split: statResult.splits if_splits option.splits
      prod.splits sum.splits exec.splits)

text \<open>
  C9. After NewSwapper has returned a Swapper, txWaitExpiration does not exceed the
  configured broadcast timeout: it is that timeout if it was greater before the call, and
  unchanged otherwise.
\<close>

theorem C9_txWaitExpiration_clamped:
  assumes "NewSwapper cfg fs env tw = (Returns (Inr s), tw', evs)"
  shows "tw' \<le> BroadcastTimeout cfg
       \<and> tw' = (if BroadcastTimeout cfg < tw then BroadcastTimeout cfg else tw)"
  using NewSwapper_cases [OF assms] by auto

text \<open>
  A configuration with two assets and a broadcast timeout of one minute, constructed while
  txWaitExpiration is two minutes.
\<close>

theorem C9_txWaitExpiration_clamped_witness:
  "\<exists>s tw' evs.
      NewSwapper (exConfig [(42, exAsset ''dcr''), (0, exAsset ''btc'')]) exStartEnv exEnv
        120000000000 = (Returns (Inr s), tw', evs)
    \<and> tw' = 60000000000
    \<and> tw' \<le> BroadcastTimeout (exConfig [(42, exAsset ''dcr''), (0, exAsset ''btc'')])"
proof -
  let ?cfg = "exConfig [(42, exAsset ''dcr''), (0, exAsset ''btc'')]"
  have "\<exists>s tw' evs. NewSwapper ?cfg exStartEnv exEnv 120000000000 = (Returns (Inr s), tw', evs)"
    by (simp add: NewSwapper_def exConfig_def exStartEnv_def exAsset_def loadInitialState_def
        Let_def)
  then obtain s tw' evs where
    n: "NewSwapper ?cfg exStartEnv exEnv 120000000000 = (Returns (Inr s), tw', evs)"
    by blast
  have "tw' = 60000000000 \<and> tw' \<le> BroadcastTimeout ?cfg"
    using C9_txWaitExpiration_clamped [OF n] by (simp add: exConfig_def)
  then show ?thesis using n by blast
qed


text \<open>
  When os.Stat of the data folder fails with an error other than a not-exist error,
  NewSwapper panics before it looks at the assets.
\<close>

lemma NewSwapper_stat_error_panics:
  "statDataDir fs = StatOtherError \<Longrightarrow>
     NewSwapper cfg fs env tw = (Panics ''nil pointer dereference'', tw, [])"
  by (simp add: NewSwapper_def)




section \<open>The event-based sweep after a restart\<close>

text \<open>
  The state of the C3 example is one the Swapper can get into by its own code: NewSwapper
  restores the saved state \<open>exState\<close>, in which the maker's redemption is not recorded,
  so the restored tracker is in MakerRedeemed with a zero redeem time; the first
  event-based sweep then revokes the match against the taker.
\<close>

lemma restored_match_revoked_by_event_sweep:
  "(case NewSwapper
           ((exConfig [(42, exAsset ''dcr''), (0, exAsset ''btc'')])\<lparr>StatePath := ''swapState.gob''\<rparr>)
           (exStartEnv\<lparr>loadStateFile := (\<lambda>path. Some exState)\<rparr>) exEnv 120000000000 of
      (Returns (Inr s), tw', evs) \<Rightarrow>
         matches s = [(replicate 32 9, 0)]
       \<and> Status (trackers s 0) = MakerRedeemed
       \<and> redeemTime (makerStatus (trackers s 0)) = 0
       \<and> swapConfirmed (makerStatus (trackers s 0)) = 63900000020000000000
       \<and> evs = [LoadStateFile ''swapState.gob'', RouteRegistered InitRoute,
                 RouteRegistered RedeemRoute]
       \<and> matches (snd (checkInactionEventBased False 63900000100000000000
                          63900000100000000000 s)) = []
       \<and> filter isInaction
           (trace (snd (checkInactionEventBased False 63900000100000000000
                          63900000100000000000 s)))
           = [Inaction [8] NoRedeemAsTaker (replicate 32 9) 100 0 [2]]
    | _ \<Rightarrow> False)"
  by (simp add: NewSwapper_def exConfig_def exStartEnv_def exState_def ex_defs loadInitialState_def
      Let_def restoreState_def translateSwapStatus_def addMatch_def addUserMatch_def
      Match.truncate_def Match.extend_def matchTracker.fields_def UnixTimeMilli_def emit_def
      newOrderSwapTracker_def
      checkInactionEventBased_def eventBasedFails_def tooOldEventBased_def
      redeemSeenTime_def Sub_def maxDuration_def minDuration_def failMatch_def failMatchFault_def
      unbookHook_def swapFailure_def swapSuccess_def decrementActiveSwapCount_def
      canceled_def revoke_def unlockOrderCoins_def unlockOrderIDCoins_def deleteMatch_def
      deleteUserMatch_def UnixMilli_def InitRoute_def RedeemRoute_def)

end
